theory Spec2Isabelle
  imports Complex_Main
begin

section \<open>Numbers, vectors and the shared simulation state\<close>

text \<open>
  The JavaScript sources compute on IEEE doubles and store particle data in
  \<^verbatim>\<open>Float32Array\<close>s. This development reads every number as a \<^typ>\<open>real\<close> and
  every arithmetic operation as the exact one: rounding, overflow to infinity and
  NaN are outside the model, except in the sampling loops of the text generator,
  where the rounding of the loop variable is a parameter. Where a divisor of the
  source can be zero, the
  model makes the JavaScript result explicit, or the text at the definition
  names the inputs for which the divisor is not zero.
\<close>

text \<open>\<^verbatim>\<open>export const EPS = 1e-6;\<close> (glhand3D.js) and the constants of config.js.\<close>

definition EPS :: real where
  "EPS = 1 / 1000000"

definition EXPLOSION_FORCE :: real where
  "EXPLOSION_FORCE = 2"

definition RETURN_SPEED :: real where
  "RETURN_SPEED = 8 / 100"

definition DAMPING :: real where
  "DAMPING = 92 / 100"

definition DEPTH_SCALE :: real where
  "DEPTH_SCALE = 35"

definition DEPTH_PUSH_STRENGTH :: real where
  "DEPTH_PUSH_STRENGTH = 18 / 100"

definition OCCLUSION_MAX_FADE :: real where
  "OCCLUSION_MAX_FADE = 75 / 100"

definition GESTURE_STABILITY_FRAMES :: nat where
  "GESTURE_STABILITY_FRAMES = 3"

definition GESTURE_HISTORY_SIZE :: nat where
  "GESTURE_HISTORY_SIZE = 10"

text \<open>The enumeration \<^verbatim>\<open>GestureShape\<close> of config.js; a raw classification is a
  label or \<^verbatim>\<open>null\<close>, that is a \<^typ>\<open>'a option\<close>.\<close>

datatype GestureShape = Sphere | Ring | Star | Heart | Text | Dragon

text \<open>\<^verbatim>\<open>THREE.Vector3\<close>: an object with the three fields x, y, z.\<close>

datatype Vector3 = Vector3 (vec_x: real) (vec_y: real) (vec_z: real)

definition defaultVector :: Vector3 where
  "defaultVector = Vector3 0 0 0"

text \<open>
  The object \<^verbatim>\<open>State\<close> of config.js, restricted to the fields the modelled
  functions read or write. The typed arrays are lists; \<^verbatim>\<open>occlusionState\<close> is its
  one field \<^verbatim>\<open>lastColorVersionApplied\<close>; the mesh contributes its rotation, scale
  and position and the two \<^verbatim>\<open>needsUpdate\<close> flags of its geometry.
\<close>

record State =
  positions :: "real list"
  velocities :: "real list"
  targets :: "real list"
  colors :: "real list"
  currentShape :: GestureShape
  isExploding :: bool
  handCentroid :: Vector3
  handPresent :: bool
  handRadius3D :: real
  lastHandTimestamp :: real
  followVelocity :: Vector3
  time :: real
  gestureHistory :: "GestureShape option list"
  lastDetectedGesture :: "GestureShape option"
  rainbowMode :: bool
  hueOffset :: real
  rainbowFrameCounter :: int
  dynamicRadius :: real
  occlusionFactors :: "real list"
  lastColorVersionApplied :: int
  colorVersion :: int
  colorDirty :: bool
  meshRotation :: Vector3
  meshScale :: Vector3
  meshPosition :: Vector3
  positionNeedsUpdate :: bool
  colorNeedsUpdate :: bool

section \<open>Gesture stabilizer\<close>

text \<open>\<^verbatim>\<open>Array.prototype.slice(-k)\<close>: the last \<open>k\<close> entries, or the whole array when
  it is shorter.\<close>

definition slice_last :: "nat \<Rightarrow> 'a list \<Rightarrow> 'a list" where
  "slice_last k xs = drop (length xs - k) xs"

text \<open>
  \<^verbatim>\<open>getStableGesture\<close> (debug.js): push, evict the oldest entry beyond
  \<^const>\<open>GESTURE_HISTORY_SIZE\<close>, then look at the last
  \<^const>\<open>GESTURE_STABILITY_FRAMES\<close> entries. The result is the returned label
  (\<^const>\<open>None\<close> for \<^verbatim>\<open>null\<close>) and the state with the updated history. A label is
  a non-empty string, hence truthy; \<^verbatim>\<open>null\<close> is falsy.
\<close>

definition getStableGesture :: "GestureShape option \<Rightarrow> State \<Rightarrow> GestureShape option \<times> State" where
  "getStableGesture newGesture s =
     (let pushed = gestureHistory s @ [newGesture];
          history = (if length pushed > GESTURE_HISTORY_SIZE then tl pushed else pushed);
          s' = s\<lparr>gestureHistory := history\<rparr>
      in if length history < GESTURE_STABILITY_FRAMES then (None, s')
         else
           let recentGestures = slice_last GESTURE_STABILITY_FRAMES history;
               firstGesture = hd recentGestures
           in if firstGesture \<noteq> None \<and> list_all (\<lambda>g. g = firstGesture) recentGestures
              then (if firstGesture \<noteq> Some (currentShape s) then (firstGesture, s')
                    else (None, s'))
              else (None, s'))"

text \<open>
  The part of \<^verbatim>\<open>onHandsResults\<close> (debug.js, lines 802 to 817) that consumes one
  raw classification: it records the raw label, asks the stabilizer, and on a
  commit stores the label as the current shape and triggers the explosion. Every
  label but \<^const>\<open>Dragon\<close> has an entry in \<^verbatim>\<open>SHAPE_GENERATORS\<close>; the generator call
  itself (new targets) is not part of this function.
\<close>

definition hasGenerator :: "GestureShape \<Rightarrow> bool" where
  "hasGenerator g = (g \<noteq> Dragon)"

definition onDetectedGesture :: "GestureShape option \<Rightarrow> State \<Rightarrow> GestureShape option \<times> State" where
  "onDetectedGesture detectedGesture s =
     (let s1 = s\<lparr>lastDetectedGesture := detectedGesture\<rparr>;
          (stableGesture, s2) = getStableGesture detectedGesture s1
      in case stableGesture of
           None \<Rightarrow> (None, s2)
         | Some g \<Rightarrow>
             if hasGenerator g then (Some g, s2\<lparr>currentShape := g, isExploding := True\<rparr>)
             else (Some g, s2))"

text \<open>Feeding a sequence of raw classifications, collecting what each call returned.\<close>

fun feedGestures :: "GestureShape option list \<Rightarrow> State \<Rightarrow> GestureShape option list \<times> State" where
  "feedGestures [] s = ([], s)"
| "feedGestures (g # gs) s =
     (let (r, s1) = onDetectedGesture g s;
          (rs, s2) = feedGestures gs s1
      in (r # rs, s2))"

text \<open>The start-up value of \<^verbatim>\<open>State\<close> (config.js), for \<open>n\<close> particles, at time \<open>now\<close>.\<close>

definition initialState :: "nat \<Rightarrow> real \<Rightarrow> State" where
  "initialState n now =
     \<lparr> positions = replicate (3 * n) 0, velocities = replicate (3 * n) 0,
       targets = replicate (3 * n) 0, colors = replicate (3 * n) 0,
       currentShape = Sphere, isExploding = False,
       handCentroid = defaultVector, handPresent = False, handRadius3D = 1,
       lastHandTimestamp = now, followVelocity = defaultVector, time = 0,
       gestureHistory = [], lastDetectedGesture = None,
       rainbowMode = True, hueOffset = 0, rainbowFrameCounter = 0,
       dynamicRadius = 1, occlusionFactors = replicate n 1,
       lastColorVersionApplied = 0, colorVersion = 0, colorDirty = False,
       meshRotation = defaultVector, meshScale = Vector3 1 1 1,
       meshPosition = defaultVector,
       positionNeedsUpdate = False, colorNeedsUpdate = False \<rparr>"

section \<open>Gesture classifier\<close>

text \<open>One landmark of the pose estimator: an object with the fields x, y, z.\<close>

datatype landmark = Landmark (lm_x: real) (lm_y: real) (lm_z: real)

text \<open>Reading a field of \<^verbatim>\<open>undefined\<close> throws a \<^verbatim>\<open>TypeError\<close>.\<close>

datatype js_error = TypeError

text \<open>The local \<^verbatim>\<open>dist\<close> of \<^verbatim>\<open>recognizeGesture\<close> (named apart from the metric of the library):
  \<^verbatim>\<open>Math.hypot(p1.x - p2.x, p1.y - p2.y)\<close>.\<close>

definition dist_lm :: "landmark \<Rightarrow> landmark \<Rightarrow> real" where
  "dist_lm p1 p2 = sqrt ((lm_x p1 - lm_x p2)\<^sup>2 + (lm_y p1 - lm_y p2)\<^sup>2)"

text \<open>
  The test \<^verbatim>\<open>a / b > c\<close> on JavaScript numbers, for a divisor \<open>b\<close> that is a
  distance (never negative): with \<open>b = 0\<close> the quotient is \<^verbatim>\<open>Infinity\<close> when
  \<open>a\<close> is positive, which exceeds every \<open>c\<close>, and \<^verbatim>\<open>NaN\<close> or \<^verbatim>\<open>-Infinity\<close>
  otherwise, for which the comparison is false.
\<close>

definition ratio_gt :: "real \<Rightarrow> real \<Rightarrow> real \<Rightarrow> bool" where
  "ratio_gt a b c = (if b = 0 then 0 < a else c < a / b)"

definition isExtended :: "landmark list \<Rightarrow> nat \<Rightarrow> nat \<Rightarrow> nat \<Rightarrow> bool" where
  "isExtended landmarks tipIdx pipIdx mcpIdx =
     (let dTip = dist_lm (landmarks ! 0) (landmarks ! tipIdx);
          dPip = dist_lm (landmarks ! 0) (landmarks ! pipIdx);
          dMcp = dist_lm (landmarks ! 0) (landmarks ! mcpIdx)
      in if tipIdx = 4
         then ratio_gt dTip dPip (115 / 100) \<and> ratio_gt dPip dMcp (85 / 100)
         else ratio_gt dTip dPip (125 / 100) \<and> ratio_gt dPip dMcp (9 / 10))"

definition isThumbUp :: "landmark list \<Rightarrow> bool" where
  "isThumbUp landmarks =
     (let thumbMcp = landmarks ! 2;
          thumbPip = landmarks ! 3;
          thumbTip = landmarks ! 4;
          wrist = landmarks ! 0;
          thumbDirectionY = lm_y thumbTip - lm_y thumbMcp;
          thumbLength = dist_lm thumbMcp thumbTip;
          wristToMcp = dist_lm wrist thumbMcp
      in ratio_gt thumbLength wristToMcp (4 / 10) \<and> thumbDirectionY < 0
         \<and> lm_y thumbTip < lm_y thumbPip)"

text \<open>
  \<^verbatim>\<open>recognizeGesture\<close> (debug.js). The five predicates are computed before any
  label is chosen and between them read the entries 0 to 20, so a frame with
  fewer than 21 entries throws; otherwise the first matching test decides.
\<close>

definition recognizeGesture :: "landmark list \<Rightarrow> js_error + GestureShape option" where
  "recognizeGesture landmarks =
     (if length landmarks < 21 then Inl TypeError
      else
        let thumbOpen = isThumbUp landmarks;
            indexOpen = isExtended landmarks 8 6 5;
            middleOpen = isExtended landmarks 12 10 9;
            ringOpen = isExtended landmarks 16 14 13;
            pinkyOpen = isExtended landmarks 20 18 17;
            fingersCount =
              length (filter (\<lambda>b. b) [thumbOpen, indexOpen, middleOpen, ringOpen, pinkyOpen])
        in if indexOpen \<and> middleOpen \<and> \<not> ringOpen \<and> \<not> pinkyOpen \<and> \<not> thumbOpen
             then Inr (Some Text)
           else if indexOpen \<and> \<not> middleOpen \<and> \<not> ringOpen \<and> \<not> pinkyOpen \<and> \<not> thumbOpen
             then Inr (Some Star)
           else if thumbOpen \<and> \<not> indexOpen \<and> \<not> middleOpen \<and> \<not> ringOpen \<and> \<not> pinkyOpen
             then Inr (Some Heart)
           else if fingersCount = 5 then Inr (Some Sphere)
           else if fingersCount = 0 then Inr (Some Ring)
           else Inr None)"

text \<open>A frame of 21 landmarks with index and middle finger stretched along the
  negative y axis, ring and pinky folded back to their base joints, and the
  thumb collapsed on its base.\<close>

definition victoryFrame :: "landmark list" where
  "victoryFrame =
     [Landmark 0 0 0,
      Landmark 1 0 0, Landmark 1 0 0, Landmark 1 0 0, Landmark 1 0 0,
      Landmark 0 (-1) 0, Landmark 0 (-2) 0, Landmark 0 (-5 / 2) 0, Landmark 0 (-3) (-1 / 10),
      Landmark 0 (-1) 0, Landmark 0 (-2) 0, Landmark 0 (-5 / 2) 0, Landmark 0 (-3) (-1 / 5),
      Landmark 0 (-1) 0, Landmark 0 (-2) 0, Landmark 0 (-3 / 2) 0, Landmark 0 (-1) 0,
      Landmark 0 (-1) 0, Landmark 0 (-2) 0, Landmark 0 (-3 / 2) 0, Landmark 0 (-1) 0]"

section \<open>Pose normalizer\<close>

text \<open>\<^verbatim>\<open>THREE.MathUtils.clamp\<close> and \<^verbatim>\<open>THREE.MathUtils.lerp\<close>, as three.js defines
  them: \<^verbatim>\<open>Math.max(min, Math.min(max, value))\<close> and \<^verbatim>\<open>(1 - t) * x + t * y\<close>.\<close>

definition clamp :: "real \<Rightarrow> real \<Rightarrow> real \<Rightarrow> real" where
  "clamp v lo hi = max lo (min hi v)"

definition lerp :: "real \<Rightarrow> real \<Rightarrow> real \<Rightarrow> real" where
  "lerp x y t = (1 - t) * x + t * y"

text \<open>\<^verbatim>\<open>a || b\<close> on numbers: \<open>b\<close> when \<open>a\<close> is zero (falsy), else \<open>a\<close>.\<close>

definition js_or :: "real \<Rightarrow> real \<Rightarrow> real" where
  "js_or a b = (if a = 0 then b else a)"

text \<open>
  \<^verbatim>\<open>worldifyLandmarks\<close> (glhand3D.js). The argument is \<^const>\<open>None\<close> for an absent
  (\<^verbatim>\<open>null\<close>, \<^verbatim>\<open>undefined\<close>) landmark array.
\<close>

definition worldifyLandmarks :: "landmark list option \<Rightarrow> real \<Rightarrow> Vector3 list" where
  "worldifyLandmarks landmarks depthScale =
     (case landmarks of
        None \<Rightarrow> []
      | Some lms \<Rightarrow>
          if length lms = 0 then []
          else
            let scaleZ = js_or depthScale 35
            in map (\<lambda>lm. Vector3 ((5 / 10 - lm_x lm) * 10) ((5 / 10 - lm_y lm) * 8)
                                 (lm_z lm * scaleZ)) lms)"

text \<open>\<^verbatim>\<open>Vector3.add\<close> and \<^verbatim>\<open>Vector3.multiplyScalar\<close> of three.js.\<close>

definition vec_add :: "Vector3 \<Rightarrow> Vector3 \<Rightarrow> Vector3" where
  "vec_add a b = Vector3 (vec_x a + vec_x b) (vec_y a + vec_y b) (vec_z a + vec_z b)"

definition multiplyScalar :: "Vector3 \<Rightarrow> real \<Rightarrow> Vector3" where
  "multiplyScalar a k = Vector3 (vec_x a * k) (vec_y a * k) (vec_z a * k)"

text \<open>\<^verbatim>\<open>computeHandCenter\<close>: the loop adds every point to \<^verbatim>\<open>center\<close>, which starts
  as the zero vector.\<close>

definition computeHandCenter :: "Vector3 list \<Rightarrow> Vector3" where
  "computeHandCenter worldLandmarks =
     (let center = Vector3 0 0 0
      in if length worldLandmarks = 0 then center
         else multiplyScalar (fold (\<lambda>p c. vec_add c p) worldLandmarks center)
                (1 / real (length worldLandmarks)))"

text \<open>\<^verbatim>\<open>computeHandRadius\<close>: the loop keeps the largest squared distance seen,
  starting from 0.\<close>

definition distSq3 :: "Vector3 \<Rightarrow> Vector3 \<Rightarrow> real" where
  "distSq3 p c =
     (let dx = vec_x p - vec_x c; dy = vec_y p - vec_y c; dz = vec_z p - vec_z c
      in dx * dx + dy * dy + dz * dz)"

definition computeHandRadius :: "Vector3 list \<Rightarrow> Vector3 \<Rightarrow> real \<Rightarrow> real \<Rightarrow> real" where
  "computeHandRadius worldLandmarks center prevRadius smoothing =
     (if length worldLandmarks = 0 then prevRadius
      else
        let maxSq = fold (\<lambda>p m. if distSq3 p center > m then distSq3 p center else m)
                      worldLandmarks 0;
            target = sqrt maxSq * (105 / 100);
            t = clamp smoothing 0 1
        in lerp prevRadius target t)"

section \<open>Depth push\<close>

text \<open>
  The loop of \<^verbatim>\<open>applyDepthPushToParticles\<close> (glhand3D.js):
  \<^verbatim>\<open>for (let i = 0; i < posArray.length; i += 3)\<close>. A write to a typed array beyond
  its length is ignored, as a list update is.
\<close>

function depthPushLoop ::
  "nat \<Rightarrow> real list \<Rightarrow> Vector3 \<Rightarrow> real \<Rightarrow> real \<Rightarrow> real list \<Rightarrow> real list" where
  "depthPushLoop i posArray handCenter radius pushStrength vel =
     (if i < length posArray then
        let dx = posArray ! i - vec_x handCenter;
            dy = posArray ! (i + 1) - vec_y handCenter;
            dz = posArray ! (i + 2) - vec_z handCenter;
            distSq = dx * dx + dy * dy + dz * dz;
            radiusSq = radius * radius
        in if distSq < radiusSq then
             let dist = sqrt distSq + EPS;
                 t = 1 - dist / radius;
                 push = t * pushStrength
             in depthPushLoop (i + 3) posArray handCenter radius pushStrength
                  (vel[i := vel ! i + (dx / dist) * push,
                       i + 1 := vel ! (i + 1) + (dy / dist) * push,
                       i + 2 := vel ! (i + 2) + (dz / dist) * push])
           else depthPushLoop (i + 3) posArray handCenter radius pushStrength vel
      else vel)"
  by pat_completeness auto
termination
  by (relation "measure (\<lambda>(i, posArray, _). length posArray - i)") auto

text \<open>The recursion equations are applied by hand, never by the simplifier.\<close>

declare depthPushLoop.simps [simp del]

text \<open>
  \<^verbatim>\<open>applyDepthPushToParticles\<close>. An argument that is \<^verbatim>\<open>null\<close> is \<^const>\<open>None\<close>: the
  mesh is represented by the array of its position attribute. The function has
  one effect, on the velocities array; the result is that array after the call,
  or \<^const>\<open>None\<close> when the guard returned early and nothing was written.
  \<^verbatim>\<open>options.pushStrength ?? 0.18\<close> is the option's default.
\<close>

definition applyDepthPushToParticles ::
  "real list option \<Rightarrow> real list option \<Rightarrow> Vector3 option \<Rightarrow> real \<Rightarrow> real option
     \<Rightarrow> real list option" where
  "applyDepthPushToParticles particlesMesh vels handCenter handRadius optPushStrength =
     (case (particlesMesh, vels, handCenter) of
        (Some posArray, Some vel, Some c) \<Rightarrow>
          let pushStrength = (case optPushStrength of None \<Rightarrow> 18 / 100 | Some p \<Rightarrow> p);
              radius = max (js_or handRadius 0 * (12 / 10)) EPS
          in Some (depthPushLoop 0 posArray c radius pushStrength vel)
      | _ \<Rightarrow> None)"

section \<open>Particle physics\<close>

text \<open>The force magnitude of the hand field in \<^verbatim>\<open>updateParticles\<close>, from the squared
  distance and the three squared radii.\<close>

definition handForce :: "real \<Rightarrow> real \<Rightarrow> real \<Rightarrow> real \<Rightarrow> real" where
  "handForce r1Sq r2Sq r3Sq distSq =
     (if distSq < r1Sq then
        let t = 1 - distSq / r1Sq in (10 / 100) * t * t
      else if distSq < r2Sq then
        let t = 1 - (distSq - r1Sq) / (r2Sq - r1Sq) in (35 / 1000) * t * t
      else if distSq < r3Sq then
        let t = 1 - (distSq - r2Sq) / (r3Sq - r2Sq) in (8 / 1000) * t
      else 0)"

text \<open>
  One iteration of the loop of \<^verbatim>\<open>updateParticles\<close>, for particle \<open>i\<close>.
  \<open>rnd\<close> gives the values of \<^verbatim>\<open>Math.random()\<close> drawn during this tick, three for each
  particle while an explosion is on.
\<close>

definition updateParticle ::
  "real \<Rightarrow> Vector3 \<Rightarrow> bool \<Rightarrow> bool \<Rightarrow> (nat \<Rightarrow> real) \<Rightarrow> real list \<Rightarrow> nat
     \<Rightarrow> real list \<times> real list \<Rightarrow> real list \<times> real list" where
  "updateParticle dynRadius handCentr handPres exploding rnd tgt i pv =
     (let pos = fst pv; vel = snd pv;
          r1 = dynRadius * (45 / 100); r2 = dynRadius * 1; r3 = dynRadius * (17 / 10);
          r1Sq = r1 * r1; r2Sq = r2 * r2; r3Sq = r3 * r3;
          idx = i * 3;
          px = pos ! idx; py = pos ! (idx + 1); pz = pos ! (idx + 2);
          tx = tgt ! idx; ty = tgt ! (idx + 1); tz = tgt ! (idx + 2);
          vel1 = (if handPres then
                    let dx = px - vec_x handCentr;
                        dy = py - vec_y handCentr;
                        dz = pz - vec_z handCentr;
                        distSq = dx * dx + dy * dy + dz * dz;
                        force = handForce r1Sq r2Sq r3Sq distSq
                    in vel[idx := vel ! idx - dx * force,
                           idx + 1 := vel ! (idx + 1) - dy * force,
                           idx + 2 := vel ! (idx + 2) - dz * force]
                  else vel);
          vel2 = (if exploding then
                    vel1[idx := vel1 ! idx + (rnd idx - 5 / 10) * EXPLOSION_FORCE,
                         idx + 1 := vel1 ! (idx + 1) + (rnd (idx + 1) - 5 / 10) * EXPLOSION_FORCE,
                         idx + 2 := vel1 ! (idx + 2) + (rnd (idx + 2) - 5 / 10) * EXPLOSION_FORCE]
                  else vel1);
          vel3 = vel2[idx := vel2 ! idx + (tx - px) * RETURN_SPEED,
                      idx + 1 := vel2 ! (idx + 1) + (ty - py) * RETURN_SPEED,
                      idx + 2 := vel2 ! (idx + 2) + (tz - pz) * RETURN_SPEED];
          vel4 = vel3[idx := vel3 ! idx * DAMPING,
                      idx + 1 := vel3 ! (idx + 1) * DAMPING,
                      idx + 2 := vel3 ! (idx + 2) * DAMPING];
          pos' = pos[idx := pos ! idx + vel4 ! idx,
                     idx + 1 := pos ! (idx + 1) + vel4 ! (idx + 1),
                     idx + 2 := pos ! (idx + 2) + vel4 ! (idx + 2)]
      in (pos', vel4))"

text \<open>
  \<^verbatim>\<open>updateParticles\<close>, for \<^verbatim>\<open>PARTICLE_COUNT = n\<close> (fixed at start-up from the window
  and the hardware, hence a parameter here).
\<close>

definition updateParticles :: "nat \<Rightarrow> (nat \<Rightarrow> real) \<Rightarrow> State \<Rightarrow> State" where
  "updateParticles n rnd s =
     (let pv = fold (updateParticle (dynamicRadius s) (handCentroid s) (handPresent s)
                       (isExploding s) rnd (targets s))
                 [0..<n] (positions s, velocities s)
      in s\<lparr>positions := fst pv, velocities := snd pv, positionNeedsUpdate := True\<rparr>)"

section \<open>Occlusion fade\<close>

text \<open>
  One iteration of the loop of \<^verbatim>\<open>applyOcclusionToParticles\<close> (glhand3D.js), for
  particle \<open>i\<close>, on the colour array, the factor array and the flag \<^verbatim>\<open>changed\<close>.
  The source spells the reset block (divide the stored colour by the previous
  factor, store factor 1) out three times; here it is bound once as \<open>reset\<close>.
  The divisor \<^verbatim>\<open>handRadius * 1.5 + EPS\<close> is positive for every radius that is not
  negative.
\<close>

definition occlusionStep ::
  "real list \<Rightarrow> Vector3 \<Rightarrow> real \<Rightarrow> bool \<Rightarrow> real \<Rightarrow> nat
     \<Rightarrow> real list \<times> real list \<times> bool \<Rightarrow> real list \<times> real list \<times> bool" where
  "occlusionStep posArray handCenter handRadius handPres maxFade i st =
     (let cols = fst st; occ = fst (snd st); changed = snd (snd st);
          radius = max (handRadius * (125 / 100)) EPS;
          radiusSq = radius * radius;
          idx = i * 3;
          prevFade = js_or (occ ! i) 1;
          reset = (if prevFade \<noteq> 1
                   then (cols[idx := cols ! idx / prevFade,
                              idx + 1 := cols ! (idx + 1) / prevFade,
                              idx + 2 := cols ! (idx + 2) / prevFade],
                         occ[i := 1], True)
                   else (cols, occ, changed))
      in if \<not> handPres then reset
         else
           let dx = posArray ! idx - vec_x handCenter;
               dy = posArray ! (idx + 1) - vec_y handCenter;
               dz = posArray ! (idx + 2) - vec_z handCenter
           in if dz \<le> 0 then reset
              else
                let distSq = dx * dx + dy * dy
                in if distSq > radiusSq then reset
                   else
                     let dist = sqrt distSq + EPS;
                         radialFactor = 1 - dist / radius;
                         depthFactor = min 1 (dz / (handRadius * (15 / 10) + EPS));
                         fade = 1 - min maxFade (radialFactor * depthFactor * maxFade)
                     in if \<bar>fade - prevFade\<bar> > 1 / 1000
                        then (cols[idx := (cols ! idx / prevFade) * fade,
                                   idx + 1 := (cols ! (idx + 1) / prevFade) * fade,
                                   idx + 2 := (cols ! (idx + 2) / prevFade) * fade],
                              occ[i := fade], True)
                        else (cols, occ, changed))"

text \<open>The argument \<^verbatim>\<open>opts\<close>; a field that the caller left out is \<^const>\<open>None\<close>.
  \<open>optOcclusionState\<close> is the field \<^verbatim>\<open>lastColorVersionApplied\<close> of the state object
  passed in.\<close>

record OcclusionOpts =
  optHandPresent :: "bool option"
  optMaxFade :: "real option"
  optColorVersion :: "int option"
  optOcclusionState :: "int option"

text \<open>
  \<^verbatim>\<open>applyOcclusionToParticles\<close>. A \<^verbatim>\<open>null\<close> mesh or array is \<^const>\<open>None\<close>, and so is the
  result when the guard returned early. Otherwise the result holds the colour
  array, the factor array, \<^verbatim>\<open>lastColorVersionApplied\<close> of the state object, and
  whether the colour attribute was flagged for upload.
\<close>

definition applyOcclusionToParticles ::
  "real list option \<Rightarrow> real list option \<Rightarrow> real list option \<Rightarrow> Vector3 \<Rightarrow> real
     \<Rightarrow> OcclusionOpts \<Rightarrow> (real list \<times> real list \<times> int \<times> bool) option" where
  "applyOcclusionToParticles particlesMesh optColors optFactors handCenter handRadius opts =
     (case (particlesMesh, optColors, optFactors) of
        (Some posArray, Some cols, Some occ) \<Rightarrow>
          let handPres = (case optHandPresent opts of None \<Rightarrow> True | Some b \<Rightarrow> b);
              maxFade = (case optMaxFade opts of None \<Rightarrow> 75 / 100 | Some m \<Rightarrow> m);
              colorVer = (case optColorVersion opts of None \<Rightarrow> 0 | Some v \<Rightarrow> v);
              lastApplied = (case optOcclusionState opts of None \<Rightarrow> 0 | Some v \<Rightarrow> v);
              occ1 = (if lastApplied \<noteq> colorVer then replicate (length occ) 1 else occ);
              st = fold (occlusionStep posArray handCenter handRadius handPres maxFade)
                     [0..<length occ1] (cols, occ1, False)
          in Some (fst st, fst (snd st), colorVer, snd (snd st))
      | _ \<Rightarrow> None)"

section \<open>Colour rewriting and the frame scheduler\<close>

text \<open>\<^verbatim>\<open>markColorsUpdated\<close> (config.js).\<close>

definition markColorsUpdated :: "State \<Rightarrow> State" where
  "markColorsUpdated s = s\<lparr>colorVersion := colorVersion s + 1\<rparr>"

text \<open>\<^verbatim>\<open>x % 1.0\<close>: the remainder has the sign of \<open>x\<close>.\<close>

definition js_mod1 :: "real \<Rightarrow> real" where
  "js_mod1 x = (if 0 \<le> x then x - of_int \<lfloor>x\<rfloor> else x - of_int \<lceil>x\<rceil>)"

text \<open>
  \<^verbatim>\<open>rainbowParticles\<close> (glhand3D.js). \<open>hsl\<close> stands for \<^verbatim>\<open>THREE.Color.setHSL(hue, 1.0, 0.5)\<close>
  of three.js, giving the red, green and blue of a hue. The mesh exists whenever
  the frame scheduler runs.
\<close>

definition rainbowParticles :: "nat \<Rightarrow> (real \<Rightarrow> real \<times> real \<times> real) \<Rightarrow> State \<Rightarrow> State" where
  "rainbowParticles n hsl s =
     (let cols = fold (\<lambda>i cs.
                    let idx = i * 3;
                        hue = js_mod1 (real i / real n + hueOffset s);
                        rgb = hsl hue
                    in cs[idx := fst rgb, idx + 1 := fst (snd rgb), idx + 2 := snd (snd rgb)])
                  [0..<n] (colors s);
          s1 = s\<lparr>colors := cols, colorDirty := True\<rparr>;
          s2 = markColorsUpdated s1
      in s2\<lparr>colorNeedsUpdate := True, colorDirty := False\<rparr>)"

text \<open>\<^verbatim>\<open>Vector3.lerp(v, alpha)\<close> of three.js.\<close>

definition vec_lerp :: "Vector3 \<Rightarrow> Vector3 \<Rightarrow> real \<Rightarrow> Vector3" where
  "vec_lerp a v alpha =
     Vector3 (vec_x a + (vec_x v - vec_x a) * alpha) (vec_y a + (vec_y v - vec_y a) * alpha)
             (vec_z a + (vec_z v - vec_z a) * alpha)"

text \<open>
  \<^verbatim>\<open>animate\<close> (glhand3D.js), one render tick, block by block in the order of the
  source. \<open>now\<close> is \<^verbatim>\<open>performance.now()\<close>, \<open>n\<close> is \<^verbatim>\<open>PARTICLE_COUNT\<close>, \<open>interval\<close> is
  \<^verbatim>\<open>RAINBOW_UPDATE_INTERVAL\<close> (3 or 6 by the hardware). Scheduling the next frame,
  the debug panel (which only reads the state) and the renderer leave the state
  as it is. JavaScript runs the tick to its end before any other callback, so no
  pose update interleaves with it.
\<close>

text \<open>\<^verbatim>\<open>State.time += 0.01\<close> and the staleness check.\<close>

definition animateStaleness :: "real \<Rightarrow> State \<Rightarrow> State" where
  "animateStaleness now s =
     (let s1 = s\<lparr>time := time s + 1 / 100\<rparr>
      in if now - lastHandTimestamp s1 > 800
         then s1\<lparr>handPresent := False, followVelocity := Vector3 0 0 0\<rparr>
         else s1)"

text \<open>The block \<^verbatim>\<open>if (State.rainbowMode) { ... }\<close>.\<close>

definition animateRainbow :: "nat \<Rightarrow> int \<Rightarrow> (real \<Rightarrow> real \<times> real \<times> real) \<Rightarrow> State \<Rightarrow> State" where
  "animateRainbow n interval hsl s =
     (if rainbowMode s then
        let a = s\<lparr>rainbowFrameCounter := rainbowFrameCounter s + 1\<rparr>
        in if rainbowFrameCounter a mod interval = 0 then
             let b = a\<lparr>hueOffset := hueOffset a + 1 / 1000\<rparr>;
                 c = (if hueOffset b > 1 then b\<lparr>hueOffset := hueOffset b - 1\<rparr> else b)
             in rainbowParticles n hsl c
           else a
      else s)"

text \<open>The call of \<^verbatim>\<open>applyDepthPushToParticles\<close> while the hand is present; the mesh's
  position array is \<^verbatim>\<open>State.positions\<close>.\<close>

definition animateDepthPush :: "State \<Rightarrow> State" where
  "animateDepthPush s =
     (if handPresent s then
        (case applyDepthPushToParticles (Some (positions s)) (Some (velocities s))
                (Some (handCentroid s)) (handRadius3D s) (Some DEPTH_PUSH_STRENGTH) of
           None \<Rightarrow> s
         | Some v \<Rightarrow> s\<lparr>velocities := v\<rparr>)
      else s)"

text \<open>The call of \<^verbatim>\<open>applyOcclusionToParticles\<close>, which writes the colour array, the
  factor array and the state object in place.\<close>

definition animateOcclusion :: "State \<Rightarrow> State" where
  "animateOcclusion s =
     (case applyOcclusionToParticles (Some (positions s)) (Some (colors s))
             (Some (occlusionFactors s)) (handCentroid s) (handRadius3D s)
             \<lparr> optHandPresent = Some (handPresent s),
               optMaxFade = Some OCCLUSION_MAX_FADE,
               optColorVersion = Some (colorVersion s),
               optOcclusionState = Some (lastColorVersionApplied s) \<rparr> of
        None \<Rightarrow> s
      | Some r \<Rightarrow>
          s\<lparr>colors := fst r, occlusionFactors := fst (snd r),
            lastColorVersionApplied := fst (snd (snd r)),
            colorNeedsUpdate := (colorNeedsUpdate s \<or> snd (snd (snd r)))\<rparr>)"

text \<open>The block \<^verbatim>\<open>if (State.colorDirty) { ... }\<close>.\<close>

definition animateColorDirty :: "State \<Rightarrow> State" where
  "animateColorDirty s =
     (if colorDirty s then s\<lparr>colorNeedsUpdate := True, colorDirty := False\<rparr> else s)"

text \<open>The idle animation of the mesh, or its turn towards the hand.\<close>

definition animateMesh :: "State \<Rightarrow> State" where
  "animateMesh s =
     (if \<not> handPresent s then
        let t = time s;
            rot = meshRotation s;
            bounceScale = 1 + sin (t * (15 / 10)) * (12 / 100)
        in s\<lparr>meshRotation :=
                Vector3 (sin (t * (9 / 10)) * (18 / 100))
                        (vec_y rot + sin (t * (6 / 10)) * (3 / 100))
                        (cos (t * (8 / 10)) * (15 / 100)),
              meshScale :=
                vec_lerp (meshScale s) (Vector3 bounceScale bounceScale bounceScale) (14 / 100),
              meshPosition :=
                Vector3 (cos (t * (9 / 10)) * (26 / 100)) (sin (t * 1) * (36 / 100))
                        (sin (t * (75 / 100)) * (12 / 100))\<rparr>
      else
        let rot = meshRotation s;
            ry = vec_y rot + (vec_x (handCentroid s) * (5 / 100) - vec_y rot) * (5 / 100);
            rx = vec_x rot + (- vec_y (handCentroid s) * (5 / 100) - vec_x rot) * (5 / 100)
        in s\<lparr>meshRotation := Vector3 rx ry (vec_z rot)\<rparr>)"

definition animate ::
  "nat \<Rightarrow> int \<Rightarrow> (real \<Rightarrow> real \<times> real \<times> real) \<Rightarrow> (nat \<Rightarrow> real) \<Rightarrow> real \<Rightarrow> State \<Rightarrow> State" where
  "animate n interval hsl rnd now s =
     animateMesh
       (animateColorDirty
         (animateOcclusion
           (updateParticles n rnd
             (animateDepthPush
               (animateRainbow n interval hsl
                 (animateStaleness now s))))))"

section \<open>Text shape generator\<close>

text \<open>A sampled point of the text bitmap, \<^verbatim>\<open>{x, y}\<close>.\<close>

datatype point = Point (pt_x: real) (pt_y: real)

text \<open>
  The two sampling loops of \<^verbatim>\<open>generateText\<close> (glhand3D.js):
  \<^verbatim>\<open>for (let x = 0; x < canvas.width; x += samplingStep)\<close> inside the same loop over
  \<open>y\<close>. The loop variables are doubles, and \<^verbatim>\<open>x += samplingStep\<close> rounds the sum to
  a double; since \<^verbatim>\<open>Math.floor(x)\<close> picks the pixel, the rounding decides which
  pixels are read (twenty steps of 1.9 reach 37.999999999999986, not 38). \<open>fl\<close>
  stands for that rounding. For a rounding that is not known to move the
  variable forward the loop need not end: the result is \<^const>\<open>None\<close> then.
  \<open>pixels\<close> is the RGBA byte array of the image data; an entry beyond its end is
  \<^verbatim>\<open>undefined\<close>, which is not greater than 128.
\<close>

partial_function (option) sampleRow ::
  "(real \<Rightarrow> real) \<Rightarrow> nat list \<Rightarrow> nat \<Rightarrow> nat \<Rightarrow> real \<Rightarrow> real \<Rightarrow> real \<Rightarrow> real \<Rightarrow> point list
     \<Rightarrow> point list option" where
  "sampleRow fl pixels canvasWidth canvasHeight samplingStep scale y x validPoints =
     (if x < real canvasWidth then
        sampleRow fl pixels canvasWidth canvasHeight samplingStep scale y (fl (x + samplingStep))
          (let index = (nat \<lfloor>y\<rfloor> * canvasWidth + nat \<lfloor>x\<rfloor>) * 4
           in if index < length pixels \<and> pixels ! index > 128
              then validPoints @ [Point ((x - real canvasWidth / 2) * scale)
                                        (- (y - real canvasHeight / 2) * scale)]
              else validPoints)
      else Some validPoints)"

partial_function (option) sampleRows ::
  "(real \<Rightarrow> real) \<Rightarrow> nat list \<Rightarrow> nat \<Rightarrow> nat \<Rightarrow> real \<Rightarrow> real \<Rightarrow> real \<Rightarrow> point list
     \<Rightarrow> point list option" where
  "sampleRows fl pixels canvasWidth canvasHeight samplingStep scale y validPoints =
     (if y < real canvasHeight then
        Option.bind (sampleRow fl pixels canvasWidth canvasHeight samplingStep scale y 0 validPoints)
          (\<lambda>vp. sampleRows fl pixels canvasWidth canvasHeight samplingStep scale
                  (fl (y + samplingStep)) vp)
      else Some validPoints)"

text \<open>
  The loop that fills the targets, for the indices still to do.
  \<^verbatim>\<open>validPoints[k]\<close> beyond the end of the array is \<^verbatim>\<open>undefined\<close>, and reading its
  field \<^verbatim>\<open>x\<close> throws.
\<close>

fun fillTargets ::
  "point list \<Rightarrow> nat \<Rightarrow> (nat \<Rightarrow> real) \<Rightarrow> nat list \<Rightarrow> real list \<Rightarrow> js_error + real list" where
  "fillTargets validPoints len rnd [] tgt = Inr tgt"
| "fillTargets validPoints len rnd (i # rest) tgt =
     (if i mod len < length validPoints then
        let pnt = validPoints ! (i mod len);
            idx = i * 3
        in fillTargets validPoints len rnd rest
             (tgt[idx := pt_x pnt, idx + 1 := pt_y pnt, idx + 2 := (rnd i - 5 / 10) * 1])
      else Inl TypeError)"

text \<open>
  \<^verbatim>\<open>generateText\<close> from the image data on (lines 505 to 530). What precedes, the
  choice of the layout by the window width and the drawing of the text on a
  canvas by the browser, enters through its results: the pixel array, the canvas
  size, the sampling step and the scale. \<open>n\<close> is \<^verbatim>\<open>PARTICLE_COUNT\<close>, \<open>tgt\<close> the array
  \<^verbatim>\<open>State.targets\<close>. The result is the targets array or the error thrown, and
  \<^const>\<open>None\<close> when the sampling does not end.
\<close>

definition generateText ::
  "(real \<Rightarrow> real) \<Rightarrow> nat list \<Rightarrow> nat \<Rightarrow> nat \<Rightarrow> real \<Rightarrow> real \<Rightarrow> nat \<Rightarrow> (nat \<Rightarrow> real) \<Rightarrow> real list
     \<Rightarrow> (js_error + real list) option" where
  "generateText fl pixels canvasWidth canvasHeight samplingStep scale n rnd tgt =
     (case sampleRows fl pixels canvasWidth canvasHeight samplingStep scale 0 [] of
        None \<Rightarrow> None
      | Some validPoints \<Rightarrow>
          let len = (if length validPoints = 0 then 1 else length validPoints)
          in Some (fillTargets validPoints len rnd [0..<n] tgt))"

section \<open>Reading and writing one particle of a flat array\<close>

text \<open>
  The arrays hold three consecutive entries per particle. \<open>upd3\<close> is the triple
  write \<^verbatim>\<open>a[k] = ..; a[k + 1] = ..; a[k + 2] = ..\<close> as the definitions above spell
  it; \<open>get3\<close> reads the three entries of particle \<open>i\<close>.
\<close>

definition upd3 :: "real list \<Rightarrow> nat \<Rightarrow> real \<Rightarrow> real \<Rightarrow> real \<Rightarrow> real list" where
  "upd3 xs k a b c = xs[k := a, k + 1 := b, k + 2 := c]"

definition get3 :: "real list \<Rightarrow> nat \<Rightarrow> real \<times> real \<times> real" where
  "get3 xs i = (xs ! (i * 3), xs ! (i * 3 + 1), xs ! (i * 3 + 2))"

text \<open>
  The velocity that one iteration of \<^const>\<open>updateParticle\<close> leaves for particle \<open>i\<close>,
  written as one expression of the entries it read: hand term, explosion term,
  spring term, then damping.
\<close>

definition particleVelocity ::
  "real \<Rightarrow> Vector3 \<Rightarrow> bool \<Rightarrow> bool \<Rightarrow> (nat \<Rightarrow> real) \<Rightarrow> real list \<Rightarrow> real list \<Rightarrow> real list
     \<Rightarrow> nat \<Rightarrow> real \<times> real \<times> real" where
  "particleVelocity dynRadius c handPres exploding rnd tgt pos vel i =
     (let idx = i * 3;
          dx = pos ! idx - vec_x c; dy = pos ! (idx + 1) - vec_y c; dz = pos ! (idx + 2) - vec_z c;
          force = (if handPres
                   then handForce ((dynRadius * (45 / 100)) * (dynRadius * (45 / 100)))
                          ((dynRadius * 1) * (dynRadius * 1))
                          ((dynRadius * (17 / 10)) * (dynRadius * (17 / 10)))
                          (dx * dx + dy * dy + dz * dz)
                   else 0);
          e = (if exploding then EXPLOSION_FORCE else 0)
      in ((vel ! idx - dx * force + (rnd idx - 5 / 10) * e
             + (tgt ! idx - pos ! idx) * RETURN_SPEED) * DAMPING,
          (vel ! (idx + 1) - dy * force + (rnd (idx + 1) - 5 / 10) * e
             + (tgt ! (idx + 1) - pos ! (idx + 1)) * RETURN_SPEED) * DAMPING,
          (vel ! (idx + 2) - dz * force + (rnd (idx + 2) - 5 / 10) * e
             + (tgt ! (idx + 2) - pos ! (idx + 2)) * RETURN_SPEED) * DAMPING))"

definition vadd3 :: "real \<times> real \<times> real \<Rightarrow> real \<times> real \<times> real \<Rightarrow> real \<times> real \<times> real" where
  "vadd3 a b = (fst a + fst b, fst (snd a) + fst (snd b), snd (snd a) + snd (snd b))"

section \<open>Consecutive physics ticks\<close>

text \<open>
  Between two calls of \<^const>\<open>updateParticles\<close> other code may replace the targets
  (a shape generator), the hand flag (a pose update, the staleness check) and
  the explosion flag (its timer). A tick input holds these three as they stand
  when the tick starts; \<open>runTicks\<close> runs one tick for each input in turn.
\<close>

type_synonym tickInput = "real list \<times> bool \<times> bool"

definition tickWith :: "nat \<Rightarrow> (nat \<Rightarrow> real) \<Rightarrow> tickInput \<Rightarrow> State \<Rightarrow> State" where
  "tickWith n rnd inp s =
     updateParticles n rnd
       (s\<lparr>targets := fst inp, handPresent := fst (snd inp), isExploding := snd (snd inp)\<rparr>)"

fun runTicks :: "nat \<Rightarrow> (nat \<Rightarrow> real) \<Rightarrow> tickInput list \<Rightarrow> State \<Rightarrow> State" where
  "runTicks n rnd [] s = s"
| "runTicks n rnd (inp # rest) s = runTicks n rnd rest (tickWith n rnd inp s)"

text \<open>Particle \<open>i\<close> has no forcing on any of the ticks: the hand is absent, no
  explosion is on, and its target is where the particle is when the tick starts.\<close>

fun zeroForcing :: "nat \<Rightarrow> nat \<Rightarrow> (nat \<Rightarrow> real) \<Rightarrow> tickInput list \<Rightarrow> State \<Rightarrow> bool" where
  "zeroForcing i n rnd [] s = True"
| "zeroForcing i n rnd (inp # rest) s =
     (\<not> fst (snd inp) \<and> \<not> snd (snd inp) \<and> get3 (fst inp) i = get3 (positions s) i
      \<and> zeroForcing i n rnd rest (tickWith n rnd inp s))"

text \<open>A state with one particle at \<open>(1, 0, 0)\<close>, at rest on its target, and the
  hand present at the origin.\<close>

definition oneParticle :: State where
  "oneParticle = (initialState 1 0)\<lparr>positions := [1, 0, 0], targets := [1, 0, 0],
                                    handPresent := True\<rparr>"

text \<open>A state with one moving particle and no hand, and two tick inputs whose
  targets follow the particle.\<close>

definition movingParticle :: State where
  "movingParticle = (initialState 1 0)\<lparr>positions := [1, 0, 0], velocities := [1, 2, 2]\<rparr>"

definition followingTargets :: "tickInput list" where
  "followingTargets =
     [([1, 0, 0], False, False), ([192 / 100, 184 / 100, 184 / 100], False, False)]"

text \<open>A state whose hand was last seen at time 0 and is still marked present,
  with the mesh following it.\<close>

definition staleHand :: State where
  "staleHand = (initialState 1 0)\<lparr>handPresent := True, followVelocity := Vector3 1 2 3\<rparr>"

text \<open>
  What one iteration of \<^const>\<open>depthPushLoop\<close> adds to the three velocity entries of
  particle \<open>m\<close>, as an expression of the entries it read.
\<close>

definition depthPushDelta ::
  "real list \<Rightarrow> Vector3 \<Rightarrow> real \<Rightarrow> real \<Rightarrow> nat \<Rightarrow> real \<times> real \<times> real" where
  "depthPushDelta posArray handCenter radius pushStrength m =
     (let dx = posArray ! (m * 3) - vec_x handCenter;
          dy = posArray ! (m * 3 + 1) - vec_y handCenter;
          dz = posArray ! (m * 3 + 2) - vec_z handCenter;
          distSq = dx * dx + dy * dy + dz * dz
      in if distSq < radius * radius then
           let dist = sqrt distSq + EPS;
               push = (1 - dist / radius) * pushStrength
           in ((dx / dist) * push, (dy / dist) * push, (dz / dist) * push)
         else (0, 0, 0))"

section \<open>One particle of the occlusion pass\<close>

text \<open>
  The fade that \<^const>\<open>occlusionStep\<close> computes for particle \<open>i\<close> when the hand is
  present, the particle lies behind it (\<open>dz > 0\<close>) and within the lateral radius;
  \<^const>\<open>None\<close> when the step takes one of its three reset branches instead.
\<close>

definition occlusionFade ::
  "real list \<Rightarrow> Vector3 \<Rightarrow> real \<Rightarrow> bool \<Rightarrow> real \<Rightarrow> nat \<Rightarrow> real option" where
  "occlusionFade posArray handCenter handRadius handPres maxFade i =
     (let radius = max (handRadius * (125 / 100)) EPS;
          dx = posArray ! (i * 3) - vec_x handCenter;
          dy = posArray ! (i * 3 + 1) - vec_y handCenter;
          dz = posArray ! (i * 3 + 2) - vec_z handCenter;
          distSq = dx * dx + dy * dy
      in if handPres \<and> \<not> dz \<le> 0 \<and> \<not> distSq > radius * radius then
           let dist = sqrt distSq + EPS;
               radialFactor = 1 - dist / radius;
               depthFactor = min 1 (dz / (handRadius * (15 / 10) + EPS))
           in Some (1 - min maxFade (radialFactor * depthFactor * maxFade))
         else None)"

text \<open>The factor the step stores for a particle whose stored factor was \<open>prev\<close>,
  and the value it stores for a colour entry that was \<open>col\<close>.\<close>

definition occlusionFactor :: "real option \<Rightarrow> real \<Rightarrow> real" where
  "occlusionFactor fade prev =
     (let prevFade = js_or prev 1
      in case fade of
           None \<Rightarrow> (if prevFade \<noteq> 1 then 1 else prev)
         | Some f \<Rightarrow> (if \<bar>f - prevFade\<bar> > 1 / 1000 then f else prev))"

definition occlusionColor :: "real option \<Rightarrow> real \<Rightarrow> real \<Rightarrow> real" where
  "occlusionColor fade prev col =
     (let prevFade = js_or prev 1
      in case fade of
           None \<Rightarrow> (if prevFade \<noteq> 1 then col / prevFade else col)
         | Some f \<Rightarrow> (if \<bar>f - prevFade\<bar> > 1 / 1000 then (col / prevFade) * f else col))"

text \<open>The options with which the frame scheduler calls the occlusion pass.\<close>

definition occlusionOpts :: "bool \<Rightarrow> real \<Rightarrow> int \<Rightarrow> int \<Rightarrow> OcclusionOpts" where
  "occlusionOpts handPres maxFade colorVer lastApplied =
     \<lparr> optHandPresent = Some handPres, optMaxFade = Some maxFade,
       optColorVersion = Some colorVer, optOcclusionState = Some lastApplied \<rparr>"

text \<open>A state with one particle, the hand absent, and a stale factor 0.5 left from
  an earlier fade.\<close>

definition staleFade :: State where
  "staleFade = (initialState 1 0)\<lparr>positions := [0, 0, 3], colors := [1 / 2, 1 / 4, 1 / 8],
                                  occlusionFactors := [1 / 2]\<rparr>"

text \<open>The same particle with the hand present at the origin, straight in front
  of it.\<close>

definition occludedStale :: State where
  "occludedStale = staleFade\<lparr>handPresent := True\<rparr>"

text \<open>
  The stored history against the full sequence of labels ever pushed: the stored
  one is an end piece of the full one, and it is the whole of it unless it
  already holds ten entries.
\<close>

definition tracks :: "'a list \<Rightarrow> 'a list \<Rightarrow> bool" where
  "tracks stored full = ((\<exists>pre. full = pre @ stored) \<and> (10 \<le> length stored \<or> stored = full))"

section \<open>Properties of the gesture stabilizer\<close>

lemma slice_last_3:
  "3 \<le> length xs \<Longrightarrow>
   slice_last 3 xs = [xs ! (length xs - 3), xs ! (length xs - 2), xs ! (length xs - 1)]"
proof -
  assume len: "3 \<le> length xs"
  define k where "k = length xs - 3"
  have l: "length xs = k + 3" using len by (simp add: k_def)
  have "drop k xs = [xs ! k, xs ! (k + 1), xs ! (k + 2)]"
    by (rule nth_equalityI) (auto simp: l less_Suc_eq numeral_3_eq_3)
  then show ?thesis
    by (simp add: slice_last_def l)
qed

lemma evicted_keeps_recent:
  "GESTURE_HISTORY_SIZE < length xs \<Longrightarrow> slice_last 3 (tl xs) = slice_last 3 xs"
proof -
  assume "GESTURE_HISTORY_SIZE < length xs"
  then obtain a ys where xs: "xs = a # ys" and "3 \<le> length ys"
    by (cases xs) (auto simp: GESTURE_HISTORY_SIZE_def)
  then obtain m where m: "length ys = m + 3"
    by (metis add.commute le_Suc_ex)
  show ?thesis
    by (simp add: slice_last_def xs m)
qed

text \<open>The label one call returns, in terms of the history with the new label
  pushed.\<close>

lemma getStableGesture_result:
  "fst (getStableGesture g s) =
     (let h = gestureHistory s @ [g]; n = length h
      in if 3 \<le> n \<and> g \<noteq> None \<and> h ! (n - 3) = g \<and> h ! (n - 2) = g
            \<and> g \<noteq> Some (currentShape s)
         then g else None)"
proof -
  define h where "h = gestureHistory s @ [g]"
  define h2 where "h2 = (if length h > GESTURE_HISTORY_SIZE then tl h else h)"
  have last_h: "h ! (length h - 1) = g"
    by (simp add: h_def)
  show ?thesis
  proof (cases "3 \<le> length h")
    case False
    then have "length h2 < 3"
      by (auto simp: h2_def)
    then show ?thesis using False
      by (simp add: getStableGesture_def Let_def GESTURE_STABILITY_FRAMES_def
          h_def [symmetric] h2_def [symmetric])
  next
    case True
    have len2: "3 \<le> length h2"
      using True by (auto simp: h2_def GESTURE_HISTORY_SIZE_def)
    have recent: "slice_last 3 h2 = [h ! (length h - 3), h ! (length h - 2), g]"
      using True last_h by (auto simp: h2_def evicted_keeps_recent slice_last_3)
    show ?thesis using True len2 recent
      by (auto simp: getStableGesture_def Let_def GESTURE_STABILITY_FRAMES_def
          h_def [symmetric] h2_def [symmetric])
  qed
qed

text \<open>The histories named with the claim, fed to a fresh state (current shape
  Sphere): only the run of three equal labels commits, and a run of the current
  shape or of \<^verbatim>\<open>null\<close> does not.\<close>

lemma stabilizer_examples:
  "fst (feedGestures [Some Star, Some Star, Some Star] (initialState n now))
     = [None, None, Some Star]"
  "fst (feedGestures [Some Star, Some Ring, Some Star] (initialState n now))
     = [None, None, None]"
  "fst (feedGestures [Some Star, Some Star] (initialState n now)) = [None, None]"
  "fst (feedGestures [None, None, None] (initialState n now)) = [None, None, None]"
  "fst (feedGestures [Some Sphere, Some Sphere, Some Sphere] (initialState n now))
     = [None, None, None]"
  by (simp_all add: onDetectedGesture_def getStableGesture_def slice_last_def initialState_def
      hasGenerator_def GESTURE_HISTORY_SIZE_def GESTURE_STABILITY_FRAMES_def Let_def)

text \<open>The history never grows beyond \<^const>\<open>GESTURE_HISTORY_SIZE\<close>.\<close>

lemma history_bounded:
  "length (gestureHistory s) \<le> GESTURE_HISTORY_SIZE \<Longrightarrow>
   length (gestureHistory (snd (getStableGesture g s))) \<le> GESTURE_HISTORY_SIZE"
  by (auto simp: getStableGesture_def Let_def)

lemma getStableGesture_call:
  "getStableGesture g s =
     (let h = gestureHistory s @ [g]; n = length h
      in (if 3 \<le> n \<and> g \<noteq> None \<and> h ! (n - 3) = g \<and> h ! (n - 2) = g
             \<and> g \<noteq> Some (currentShape s)
          then g else None,
          s\<lparr>gestureHistory := (if GESTURE_HISTORY_SIZE < n then tl h else h)\<rparr>))"
proof (rule prod_eqI)
  show "fst (getStableGesture g s) = fst (let h = gestureHistory s @ [g]; n = length h
      in (if 3 \<le> n \<and> g \<noteq> None \<and> h ! (n - 3) = g \<and> h ! (n - 2) = g
             \<and> g \<noteq> Some (currentShape s)
          then g else None,
          s\<lparr>gestureHistory := (if GESTURE_HISTORY_SIZE < n then tl h else h)\<rparr>))"
    using getStableGesture_result [of g s] by (simp add: Let_def)
  show "snd (getStableGesture g s) = snd (let h = gestureHistory s @ [g]; n = length h
      in (if 3 \<le> n \<and> g \<noteq> None \<and> h ! (n - 3) = g \<and> h ! (n - 2) = g
             \<and> g \<noteq> Some (currentShape s)
          then g else None,
          s\<lparr>gestureHistory := (if GESTURE_HISTORY_SIZE < n then tl h else h)\<rparr>))"
    by (simp add: getStableGesture_def Let_def)
qed

lemma tracks_refl: "tracks h h"
  by (simp add: tracks_def)

lemma tracks_push:
  assumes "tracks stored full"
  shows "tracks (if GESTURE_HISTORY_SIZE < length (stored @ [g]) then tl (stored @ [g])
                 else stored @ [g]) (full @ [g])"
proof -
  from assms obtain pre where pre: "full = pre @ stored"
    and big: "10 \<le> length stored \<or> stored = full"
    by (auto simp: tracks_def)
  show ?thesis
  proof (cases "GESTURE_HISTORY_SIZE < length (stored @ [g])")
    case True
    then have ten: "10 \<le> length stored"
      by (simp add: GESTURE_HISTORY_SIZE_def)
    then obtain x rest where st: "stored = x # rest"
      by (cases stored) auto
    have "full @ [g] = (pre @ [x]) @ tl (stored @ [g])"
      by (simp add: pre st)
    then have "\<exists>p. full @ [g] = p @ tl (stored @ [g])"
      by (rule exI)
    moreover have "10 \<le> length (tl (stored @ [g]))"
      using ten by simp
    ultimately have "tracks (tl (stored @ [g])) (full @ [g])"
      unfolding tracks_def by (rule conjI [OF _ disjI1])
    then show ?thesis
      using True by simp
  next
    case False
    then have "length stored < 10"
      by (simp add: GESTURE_HISTORY_SIZE_def)
    then have "stored = full"
      using big by simp
    then show ?thesis
      using False by (simp add: tracks_refl)
  qed
qed

lemma tracks_recent:
  assumes "tracks stored full"
  shows "(3 \<le> length (stored @ [g])) = (3 \<le> length (full @ [g]))"
    and "3 \<le> length (full @ [g]) \<Longrightarrow>
      (stored @ [g]) ! (length (stored @ [g]) - 3) = (full @ [g]) ! (length (full @ [g]) - 3)
    \<and> (stored @ [g]) ! (length (stored @ [g]) - 2) = (full @ [g]) ! (length (full @ [g]) - 2)"
proof -
  from assms obtain pre where pre: "full = pre @ stored"
    and big: "10 \<le> length stored \<or> stored = full"
    by (auto simp: tracks_def)
  show len: "(3 \<le> length (stored @ [g])) = (3 \<le> length (full @ [g]))"
    using big pre by auto
  assume three: "3 \<le> length (full @ [g])"
  define xs where "xs = stored @ [g]"
  have f: "full @ [g] = pre @ xs"
    by (simp add: pre xs_def)
  have l: "3 \<le> length xs"
    using len three by (simp add: xs_def)
  have "(pre @ xs) ! (length (pre @ xs) - k) = xs ! (length xs - k)" if "k \<le> length xs" for k
    using that by (auto simp: nth_append)
  from this [of 3] this [of 2] l show "(stored @ [g]) ! (length (stored @ [g]) - 3)
        = (full @ [g]) ! (length (full @ [g]) - 3)
    \<and> (stored @ [g]) ! (length (stored @ [g]) - 2) = (full @ [g]) ! (length (full @ [g]) - 2)"
    unfolding f xs_def [symmetric] by simp
qed


lemma onDetectedGesture_fst:
  "fst (onDetectedGesture g s) = fst (getStableGesture g s)"
  by (simp add: onDetectedGesture_def getStableGesture_def Let_def split: option.split)

lemma onDetectedGesture_history:
  "gestureHistory (snd (onDetectedGesture g s)) =
     (if GESTURE_HISTORY_SIZE < length (gestureHistory s @ [g]) then tl (gestureHistory s @ [g])
      else gestureHistory s @ [g])"
  by (simp add: onDetectedGesture_def getStableGesture_def Let_def split: option.split)

lemma feedGestures_Cons:
  "fst (feedGestures (g # gs) s)
     = fst (onDetectedGesture g s) # fst (feedGestures gs (snd (onDetectedGesture g s)))"
  "snd (feedGestures (g # gs) s) = snd (feedGestures gs (snd (onDetectedGesture g s)))"
  by (simp_all add: case_prod_beta Let_def)

lemma feedGestures_results:
  "tracks (gestureHistory s) H \<Longrightarrow> k < length gs \<Longrightarrow>
   fst (feedGestures gs s) ! k =
     (let h = H @ take (Suc k) gs; n = length h; g = gs ! k;
          cur = currentShape (snd (feedGestures (take k gs) s))
      in if 3 \<le> n \<and> g \<noteq> None \<and> h ! (n - 3) = g \<and> h ! (n - 2) = g \<and> g \<noteq> Some cur
         then g else None)"
proof (induction gs arbitrary: s H k)
  case Nil
  then show ?case by simp
next
  case (Cons g gs)
  show ?case
  proof (cases k)
    case 0
    note r = tracks_recent [OF Cons.prems(1), of g]
    have "fst (feedGestures (g # gs) s) ! 0 = fst (getStableGesture g s)"
      by (simp add: feedGestures_Cons onDetectedGesture_fst del: feedGestures.simps)
    also have "\<dots> = (let h = gestureHistory s @ [g]; n = length h
      in if 3 \<le> n \<and> g \<noteq> None \<and> h ! (n - 3) = g \<and> h ! (n - 2) = g
            \<and> g \<noteq> Some (currentShape s)
         then g else None)"
      by (rule getStableGesture_result)
    also have "\<dots> = (let h = H @ [g]; n = length h
      in if 3 \<le> n \<and> g \<noteq> None \<and> h ! (n - 3) = g \<and> h ! (n - 2) = g
            \<and> g \<noteq> Some (currentShape s)
         then g else None)"
      unfolding Let_def using r by (cases "3 \<le> length (H @ [g])") auto
    finally show ?thesis
      using 0 by (simp add: Let_def)
  next
    case (Suc j)
    define s' where "s' = snd (onDetectedGesture g s)"
    have t: "tracks (gestureHistory s') (H @ [g])"
      unfolding s'_def onDetectedGesture_history by (rule tracks_push [OF Cons.prems(1)])
    have j: "j < length gs"
      using Cons.prems(2) Suc by simp
    note IH = Cons.IH [OF t j]
    show ?thesis
      unfolding Suc using IH
      by (simp add: feedGestures_Cons s'_def Let_def del: feedGestures.simps)
  qed
qed


text \<open>
  Claim C1. One call of \<^const>\<open>getStableGesture\<close> pushes the raw label, evicts
  the oldest entry beyond ten, stores that history, and returns a commit exactly
  when the pushed history holds at least three entries, its last three entries
  are one and the same non-null label, and that label is not the current shape;
  otherwise it returns \<^verbatim>\<open>null\<close>. Hence for every sequence of raw labels fed
  through \<^const>\<open>onDetectedGesture\<close>, call \<open>k\<close> returns a commit exactly when the
  history so far (the initial one followed by the labels up to \<open>k\<close>) passes
  that test against the shape current before the call.
\<close>

theorem getStableGesture_commit:
  "getStableGesture g s =
     (let h = gestureHistory s @ [g]; n = length h
      in (if 3 \<le> n \<and> g \<noteq> None \<and> h ! (n - 3) = g \<and> h ! (n - 2) = g
             \<and> g \<noteq> Some (currentShape s)
          then g else None,
          s\<lparr>gestureHistory := (if GESTURE_HISTORY_SIZE < n then tl h else h)\<rparr>))
   \<and> length (fst (feedGestures gs s)) = length gs
   \<and> (\<forall>k<length gs.
         fst (feedGestures gs s) ! k =
           (let h = gestureHistory s @ take (Suc k) gs; n = length h; g = gs ! k;
                cur = currentShape (snd (feedGestures (take k gs) s))
            in if 3 \<le> n \<and> g \<noteq> None \<and> h ! (n - 3) = g \<and> h ! (n - 2) = g \<and> g \<noteq> Some cur
               then g else None))"
proof (intro conjI allI impI)
  show "getStableGesture g s =
     (let h = gestureHistory s @ [g]; n = length h
      in (if 3 \<le> n \<and> g \<noteq> None \<and> h ! (n - 3) = g \<and> h ! (n - 2) = g
             \<and> g \<noteq> Some (currentShape s)
          then g else None,
          s\<lparr>gestureHistory := (if GESTURE_HISTORY_SIZE < n then tl h else h)\<rparr>))"
    by (rule getStableGesture_call)
  show "length (fst (feedGestures gs s)) = length gs"
    by (induction gs arbitrary: s) (simp_all add: case_prod_beta Let_def)
  fix k
  assume "k < length gs"
  then show "fst (feedGestures gs s) ! k =
           (let h = gestureHistory s @ take (Suc k) gs; n = length h; g = gs ! k;
                cur = currentShape (snd (feedGestures (take k gs) s))
            in if 3 \<le> n \<and> g \<noteq> None \<and> h ! (n - 3) = g \<and> h ! (n - 2) = g \<and> g \<noteq> Some cur
               then g else None)"
    by (rule feedGestures_results [OF tracks_refl])
qed

theorem getStableGesture_commit_witness:
  "(2::nat) < length [Some Star, Some Star, Some Star]
   \<and> fst (feedGestures [Some Star, Some Star, Some Star] (initialState 1 0)) ! 2 = Some Star
   \<and> fst (feedGestures [Some Star, Some Ring, Some Star] (initialState 1 0)) ! 2 = None
   \<and> (1::nat) < length [Some Star, Some Star]
   \<and> fst (feedGestures [Some Star, Some Star] (initialState 1 0)) ! 1 = None
   \<and> fst (feedGestures [Some Sphere, Some Sphere, Some Sphere] (initialState 1 0)) ! 2 = None
   \<and> fst (feedGestures [None, None, None] (initialState 1 0)) ! 2 = None"
proof -
  note ev = onDetectedGesture_def getStableGesture_def initialState_def Let_def
    GESTURE_HISTORY_SIZE_def GESTURE_STABILITY_FRAMES_def slice_last_def hasGenerator_def
  have h0: "gestureHistory (initialState 1 0) = []"
    by (simp add: initialState_def)
  note th = getStableGesture_commit [THEN conjunct2, THEN conjunct2, rule_format,
      of _ _ "initialState 1 0"]
  have "fst (feedGestures [Some Star, Some Star, Some Star] (initialState 1 0)) ! 2 = Some Star"
    by (subst th) (simp_all add: ev)
  moreover have "fst (feedGestures [Some Star, Some Ring, Some Star] (initialState 1 0)) ! 2 = None"
    by (subst th) (simp_all add: ev)
  moreover have "fst (feedGestures [Some Star, Some Star] (initialState 1 0)) ! 1 = None"
    by (subst th) (simp_all add: ev)
  moreover have "fst (feedGestures [Some Sphere, Some Sphere, Some Sphere] (initialState 1 0)) ! 2
      = None"
    by (subst th) (simp_all add: ev)
  moreover have "fst (feedGestures [None, None, None] (initialState 1 0)) ! 2 = None"
    by (subst th) (simp_all add: ev)
  ultimately show ?thesis
    by simp
qed

section \<open>Properties of the gesture classifier\<close>

text \<open>
  Claim C2. On a frame of 21 landmarks \<^const>\<open>recognizeGesture\<close> returns the first
  label of a fixed order whose test holds of the five per-digit predicates: Text
  when index and middle are extended and thumb, ring and pinky are not; else
  Star when only the index is; else Heart when only the thumb is; else Sphere
  when all five digits are; else Ring when none is; else \<^verbatim>\<open>null\<close>.
\<close>

theorem recognizeGesture_priority:
  "length lm = 21 \<Longrightarrow>
   recognizeGesture lm =
     Inr (let thumb = isThumbUp lm; index = isExtended lm 8 6 5;
              middle = isExtended lm 12 10 9; ring = isExtended lm 16 14 13;
              pinky = isExtended lm 20 18 17
          in if index \<and> middle \<and> \<not> thumb \<and> \<not> ring \<and> \<not> pinky then Some Text
             else if index \<and> \<not> thumb \<and> \<not> middle \<and> \<not> ring \<and> \<not> pinky then Some Star
             else if thumb \<and> \<not> index \<and> \<not> middle \<and> \<not> ring \<and> \<not> pinky then Some Heart
             else if thumb \<and> index \<and> middle \<and> ring \<and> pinky then Some Sphere
             else if \<not> thumb \<and> \<not> index \<and> \<not> middle \<and> \<not> ring \<and> \<not> pinky then Some Ring
             else None)"
  by (auto simp: recognizeGesture_def Let_def)

theorem recognizeGesture_priority_witness:
  "length victoryFrame = 21 \<and> recognizeGesture victoryFrame = Inr (Some Text)"
  using recognizeGesture_priority [of victoryFrame]
  by (simp add: victoryFrame_def isThumbUp_def isExtended_def dist_lm_def ratio_gt_def)

section \<open>Properties of the pose normalizer\<close>

lemma fold_vec_add:
  "fold (\<lambda>p c. vec_add c p) w acc =
     Vector3 (vec_x acc + sum_list (map vec_x w)) (vec_y acc + sum_list (map vec_y w))
             (vec_z acc + sum_list (map vec_z w))"
  by (induction w arbitrary: acc) (simp_all add: vec_add_def add.assoc)

lemma fold_max:
  "fold (\<lambda>p m. if f p > m then f p else m) w (m0::real) = Max (insert m0 (f ` set w))"
proof (induction w arbitrary: m0)
  case Nil
  then show ?case by simp
next
  case (Cons a w)
  have "(if m0 < f a then f a else m0) = max m0 (f a)"
    by (simp add: max_def)
  then have "fold (\<lambda>p m. if f p > m then f p else m) (a # w) m0
      = Max (insert (max m0 (f a)) (f ` set w))"
    using Cons.IH by simp
  also have "\<dots> = Max (insert m0 (f ` set (a # w)))"
  proof (cases "set w = {}")
    case True
    then show ?thesis by (simp add: max.commute)
  next
    case False
    then have ne: "f ` set w \<noteq> {}" by simp
    have "Max (insert (max m0 (f a)) (f ` set w)) = max (max m0 (f a)) (Max (f ` set w))"
      using ne by simp
    also have "\<dots> = max m0 (max (f a) (Max (f ` set w)))"
      by (simp add: max.assoc)
    also have "\<dots> = Max (insert m0 (insert (f a) (f ` set w)))"
      using ne by simp
    finally show ?thesis by simp
  qed
  finally show ?case .
qed

lemma sqrt_Max:
  assumes "finite A" "A \<noteq> {}"
  shows "sqrt (Max A) = Max (sqrt ` A)"
  by (rule mono_Max_commute) (auto simp: mono_def assms)

lemma distSq3_nonneg: "0 \<le> distSq3 p c"
  by (simp add: distSq3_def Let_def)

lemma farthest:
  assumes "w \<noteq> []"
  shows "sqrt (fold (\<lambda>p m. if distSq3 p c > m then distSq3 p c else m) w 0)
       = Max ((\<lambda>p. sqrt (distSq3 p c)) ` set w)"
proof -
  let ?f = "\<lambda>p. distSq3 p c"
  have ne: "?f ` set w \<noteq> {}"
    using assms by simp
  have "Max (insert 0 (?f ` set w)) = max 0 (Max (?f ` set w))"
    using ne by simp
  moreover have "0 \<le> Max (?f ` set w)"
  proof -
    from assms obtain p where "p \<in> set w"
      by (cases w) auto
    then have "?f p \<le> Max (?f ` set w)"
      by simp
    then show ?thesis
      using distSq3_nonneg [of p c] by linarith
  qed
  ultimately have "fold (\<lambda>p m. if ?f p > m then ?f p else m) w 0 = Max (?f ` set w)"
    by (simp add: fold_max)
  then show ?thesis
    using ne by (simp add: sqrt_Max image_image)
qed

text \<open>
  Claim C9. For a non-empty landmark sequence (21 entries in the pipeline) and a
  depth scale other than zero (config.js sets 35; a zero scale is replaced by 35),
  \<^const>\<open>worldifyLandmarks\<close> maps each landmark to
  \<open>((0.5 - x) * 10, (0.5 - y) * 8, z * depthScale)\<close>, \<^const>\<open>computeHandCenter\<close> is the
  mean of the mapped points, and \<^const>\<open>computeHandRadius\<close> blends the previous radius
  towards 1.05 times the largest Euclidean distance of a mapped point from the
  given centre. For an absent or empty input the mapped array is empty and the
  centre is the zero vector; no call raises an error.
\<close>

theorem pose_normalizer:
  "lms \<noteq> [] \<Longrightarrow> depthScale \<noteq> 0 \<Longrightarrow>
   (let w = worldifyLandmarks (Some lms) depthScale; n = real (length w)
    in w = map (\<lambda>lm. Vector3 ((1 / 2 - lm_x lm) * 10) ((1 / 2 - lm_y lm) * 8)
                        (lm_z lm * depthScale)) lms
     \<and> computeHandCenter w =
         Vector3 (sum_list (map vec_x w) / n) (sum_list (map vec_y w) / n)
                 (sum_list (map vec_z w) / n)
     \<and> computeHandRadius w c prevRadius smoothing =
         lerp prevRadius
           (105 / 100 * Max ((\<lambda>p. sqrt ((vec_x p - vec_x c)\<^sup>2 + (vec_y p - vec_y c)\<^sup>2
                                          + (vec_z p - vec_z c)\<^sup>2)) ` set w))
           (clamp smoothing 0 1))
   \<and> worldifyLandmarks None depthScale = []
   \<and> worldifyLandmarks (Some []) depthScale = []
   \<and> computeHandCenter (worldifyLandmarks None depthScale) = Vector3 0 0 0
   \<and> computeHandCenter (worldifyLandmarks (Some []) depthScale) = Vector3 0 0 0"
proof -
  assume ne: "lms \<noteq> []" and ds: "depthScale \<noteq> 0"
  define w where "w = worldifyLandmarks (Some lms) depthScale"
  have w: "w = map (\<lambda>lm. Vector3 ((1 / 2 - lm_x lm) * 10) ((1 / 2 - lm_y lm) * 8)
                        (lm_z lm * depthScale)) lms"
    using ne ds by (simp add: w_def worldifyLandmarks_def js_or_def)
  have wne: "w \<noteq> []"
    using ne w by simp
  have center: "computeHandCenter w =
         Vector3 (sum_list (map vec_x w) / real (length w))
                 (sum_list (map vec_y w) / real (length w))
                 (sum_list (map vec_z w) / real (length w))"
    using wne by (simp add: computeHandCenter_def fold_vec_add multiplyScalar_def divide_inverse)
  have sq: "(\<lambda>p. sqrt ((vec_x p - vec_x c)\<^sup>2 + (vec_y p - vec_y c)\<^sup>2 + (vec_z p - vec_z c)\<^sup>2))
          = (\<lambda>p. sqrt (distSq3 p c))"
    by (simp add: distSq3_def Let_def power2_eq_square)
  have radius: "computeHandRadius w c prevRadius smoothing =
         lerp prevRadius (105 / 100 * Max ((\<lambda>p. sqrt (distSq3 p c)) ` set w))
           (clamp smoothing 0 1)"
    using wne by (simp add: computeHandRadius_def Let_def farthest mult.commute)
  have empties: "worldifyLandmarks None depthScale = []"
    "worldifyLandmarks (Some []) depthScale = []"
    "computeHandCenter [] = Vector3 0 0 0"
    by (simp_all add: worldifyLandmarks_def computeHandCenter_def)
  show ?thesis
    unfolding Let_def w_def [symmetric] sq
    using w center radius empties by simp
qed

theorem pose_normalizer_witness:
  "victoryFrame \<noteq> [] \<and> DEPTH_SCALE \<noteq> 0
   \<and> length (worldifyLandmarks (Some victoryFrame) DEPTH_SCALE) = 21
   \<and> worldifyLandmarks (Some victoryFrame) DEPTH_SCALE ! 8 = Vector3 5 28 (- 7 / 2)
   \<and> computeHandCenter (worldifyLandmarks (Some victoryFrame) DEPTH_SCALE)
       = Vector3 (65 / 21) (44 / 3) (- 1 / 2)"
proof -
  have ne: "victoryFrame \<noteq> []"
    by (simp add: victoryFrame_def)
  have ds: "DEPTH_SCALE \<noteq> 0"
    by (simp add: DEPTH_SCALE_def)
  define w where "w = worldifyLandmarks (Some victoryFrame) DEPTH_SCALE"
  note th = pose_normalizer [OF ne ds, of "Vector3 0 0 0" 1 "1 / 4", unfolded Let_def,
      folded w_def]
  from th have w: "w = map (\<lambda>lm. Vector3 ((1 / 2 - lm_x lm) * 10) ((1 / 2 - lm_y lm) * 8)
                        (lm_z lm * DEPTH_SCALE)) victoryFrame"
    by blast
  from th have c: "computeHandCenter w =
         Vector3 (sum_list (map vec_x w) / real (length w))
                 (sum_list (map vec_y w) / real (length w))
                 (sum_list (map vec_z w) / real (length w))"
    by blast
  have "length w = 21" "w ! 8 = Vector3 5 28 (- 7 / 2)"
    "computeHandCenter w = Vector3 (65 / 21) (44 / 3) (- 1 / 2)"
    unfolding c unfolding w by (simp_all add: victoryFrame_def DEPTH_SCALE_def)
  then show ?thesis
    using ne ds by (simp add: w_def)
qed

section \<open>Properties of the particle physics\<close>

lemma length_upd3 [simp]: "length (upd3 xs k a b c) = length xs"
  by (simp add: upd3_def)

lemma upd3_nth [simp]:
  "Suc (Suc k) < length xs \<Longrightarrow> upd3 xs k a b c ! k = a"
  "Suc (Suc k) < length xs \<Longrightarrow> upd3 xs k a b c ! Suc k = b"
  "Suc (Suc k) < length xs \<Longrightarrow> upd3 xs k a b c ! Suc (Suc k) = c"
  by (simp_all add: upd3_def)

lemma upd3_upd3 [simp]: "upd3 (upd3 xs k a b c) k a' b' c' = upd3 xs k a' b' c'"
proof (rule nth_equalityI)
  fix i
  assume "i < length (upd3 (upd3 xs k a b c) k a' b' c')"
  then have "i < length xs"
    by simp
  then show "upd3 (upd3 xs k a b c) k a' b' c' ! i = upd3 xs k a' b' c' ! i"
    by (cases "i = k"; cases "i = Suc k"; cases "i = Suc (Suc k)") (simp_all add: upd3_def)
qed simp

lemma upd3_same: "upd3 xs k (xs ! k) (xs ! (k + 1)) (xs ! (k + 2)) = xs"
  by (simp add: upd3_def)

lemma get3_upd3:
  assumes "n * 3 + 2 < length xs"
  shows "get3 (upd3 xs (n * 3) a b c) i = (if i = n then (a, b, c) else get3 xs i)"
proof (cases "i = n")
  case True
  then show ?thesis using assms by (simp add: get3_def)
next
  case False
  have ne: "\<And>d e. d < 3 \<Longrightarrow> e < 3 \<Longrightarrow> i * 3 + d \<noteq> n * 3 + e"
    using False by presburger
  have "upd3 xs (n * 3) a b c ! (i * 3 + d) = xs ! (i * 3 + d)" if "d < 3" for d
    using ne [OF that, of 0] ne [OF that, of 1] ne [OF that, of 2]
    by (simp add: upd3_def)
  from this [of 0] this [of 1] this [of 2] show ?thesis
    using False by (simp add: get3_def)
qed

lemma particleVelocity_cong:
  "get3 pos i = get3 pos' i \<Longrightarrow> get3 vel i = get3 vel' i \<Longrightarrow>
   particleVelocity R c hp ex rnd tgt pos vel i = particleVelocity R c hp ex rnd tgt pos' vel' i"
  by (simp add: particleVelocity_def get3_def Let_def)

lemma updateParticle_vel:
  assumes "i * 3 + 2 < length vel"
  shows "snd (updateParticle R c hp ex rnd tgt i (pos, vel)) =
     (let v = particleVelocity R c hp ex rnd tgt pos vel i
      in upd3 vel (i * 3) (fst v) (fst (snd v)) (snd (snd v)))"
  unfolding updateParticle_def Let_def upd3_def [symmetric]
  using assms
  by (simp add: particleVelocity_def Let_def)

lemma updateParticle_pos:
  assumes "i * 3 + 2 < length vel" 
  shows "fst (updateParticle R c hp ex rnd tgt i (pos, vel)) =
     (let v = particleVelocity R c hp ex rnd tgt pos vel i
      in upd3 pos (i * 3) (pos ! (i * 3) + fst v) (pos ! (i * 3 + 1) + fst (snd v))
           (pos ! (i * 3 + 2) + snd (snd v)))"
  unfolding updateParticle_def Let_def upd3_def [symmetric]
  using assms
  by (simp add: particleVelocity_def Let_def)

lemma updateParticles_loop:
  assumes "length pos = n * 3" "length vel = n * 3" "m \<le> n"
  shows "length (fst (fold (updateParticle R c hp ex rnd tgt) [0..<m] (pos, vel))) = n * 3
       \<and> length (snd (fold (updateParticle R c hp ex rnd tgt) [0..<m] (pos, vel))) = n * 3
       \<and> (\<forall>i<n. get3 (snd (fold (updateParticle R c hp ex rnd tgt) [0..<m] (pos, vel))) i =
                 (if i < m then particleVelocity R c hp ex rnd tgt pos vel i else get3 vel i))
       \<and> (\<forall>i<n. get3 (fst (fold (updateParticle R c hp ex rnd tgt) [0..<m] (pos, vel))) i =
                 (if i < m then vadd3 (get3 pos i) (particleVelocity R c hp ex rnd tgt pos vel i)
                  else get3 pos i))"
  using assms(3)
proof (induction m)
  case 0
  then show ?case using assms by simp
next
  case (Suc m)
  define pv where "pv = fold (updateParticle R c hp ex rnd tgt) [0..<m] (pos, vel)"
  define P where "P = fst pv"
  define V where "V = snd pv"
  have pv: "pv = (P, V)" by (simp add: P_def V_def)
  from Suc have m: "m < n" by simp
  from Suc.IH m have lenP: "length P = n * 3" and lenV: "length V = n * 3"
    and IHV: "\<And>i. i < n \<Longrightarrow> get3 V i = (if i < m then particleVelocity R c hp ex rnd tgt pos vel i else get3 vel i)"
    and IHP: "\<And>i. i < n \<Longrightarrow> get3 P i = (if i < m then vadd3 (get3 pos i) (particleVelocity R c hp ex rnd tgt pos vel i) else get3 pos i)"
    by (simp_all add: pv_def [symmetric] P_def V_def)
  have rng: "m * 3 + 2 < length V" "m * 3 + 2 < length P"
    using m lenP lenV by simp_all
  have gP: "get3 P m = get3 pos m" and gV: "get3 V m = get3 vel m"
    using IHP [OF m] IHV [OF m] by simp_all
  have pvel: "particleVelocity R c hp ex rnd tgt P V m = particleVelocity R c hp ex rnd tgt pos vel m"
    by (rule particleVelocity_cong [OF gP gV])
  define w where "w = particleVelocity R c hp ex rnd tgt pos vel m"
  have step: "fold (updateParticle R c hp ex rnd tgt) [0..<Suc m] (pos, vel)
      = updateParticle R c hp ex rnd tgt m (P, V)"
    by (simp add: pv_def [symmetric] pv)
  have V': "snd (updateParticle R c hp ex rnd tgt m (P, V)) = upd3 V (m * 3) (fst w) (fst (snd w)) (snd (snd w))"
    using updateParticle_vel [OF rng(1), of R c hp ex rnd tgt P] by (simp add: Let_def pvel w_def)
  have P': "fst (updateParticle R c hp ex rnd tgt m (P, V)) =
      upd3 P (m * 3) (P ! (m * 3) + fst w) (P ! (m * 3 + 1) + fst (snd w)) (P ! (m * 3 + 2) + snd (snd w))"
    using updateParticle_pos [OF rng(1), of R c hp ex rnd tgt P] by (simp add: Let_def pvel w_def)
  have Pm: "(P ! (m * 3) + fst w, P ! (m * 3 + 1) + fst (snd w), P ! (m * 3 + 2) + snd (snd w))
      = vadd3 (get3 pos m) w"
    using gP by (simp add: get3_def vadd3_def)
  show ?case
    unfolding step V' P'
    using lenP lenV IHV IHP rng Pm
    by (auto simp: get3_upd3 w_def less_Suc_eq)
qed


lemma updateParticles_particle:
  assumes "i < n" "length (positions s) = n * 3" "length (velocities s) = n * 3"
  shows "get3 (velocities (updateParticles n rnd s)) i =
           particleVelocity (dynamicRadius s) (handCentroid s) (handPresent s) (isExploding s) rnd
             (targets s) (positions s) (velocities s) i"
    and "get3 (positions (updateParticles n rnd s)) i =
           vadd3 (get3 (positions s) i)
             (particleVelocity (dynamicRadius s) (handCentroid s) (handPresent s) (isExploding s) rnd
               (targets s) (positions s) (velocities s) i)"
    and "length (velocities (updateParticles n rnd s)) = n * 3"
    and "length (positions (updateParticles n rnd s)) = n * 3"
  using updateParticles_loop [OF assms(2,3) order_refl, of "dynamicRadius s" "handCentroid s"
      "handPresent s" "isExploding s" rnd "targets s"] assms(1)
  by (simp_all add: updateParticles_def Let_def)

lemma sqrt_less_square:
  assumes "0 \<le> r"
  shows "(sqrt q < r) = (q < r * r)"
proof -
  have "sqrt (r * r) = r"
    using assms by simp
  then show ?thesis
    by (metis real_sqrt_less_iff)
qed

lemma handForce_by_distance:
  assumes "0 \<le> R" "0 \<le> q"
  shows "handForce ((R * (45 / 100)) * (R * (45 / 100))) ((R * 1) * (R * 1))
           ((R * (17 / 10)) * (R * (17 / 10))) q =
         (let d = sqrt q; r1 = 45 / 100 * R; r2 = R; r3 = 17 / 10 * R
          in if d < r1 then 10 / 100 * (1 - d\<^sup>2 / r1\<^sup>2)\<^sup>2
             else if d < r2 then 35 / 1000 * (1 - (d\<^sup>2 - r1\<^sup>2) / (r2\<^sup>2 - r1\<^sup>2))\<^sup>2
             else if d < r3 then 8 / 1000 * (1 - (d\<^sup>2 - r2\<^sup>2) / (r3\<^sup>2 - r2\<^sup>2))
             else 0)"
proof -
  have d2: "(sqrt q)\<^sup>2 = q"
    using assms(2) by simp
  have c1: "(sqrt q < 45 / 100 * R) = (q < (R * (45 / 100)) * (R * (45 / 100)))"
    using sqrt_less_square [of "45 / 100 * R" q] assms(1) by (simp add: mult.commute)
  have c2: "(sqrt q < R) = (q < (R * 1) * (R * 1))"
    using sqrt_less_square [of R q] assms(1) by simp
  have c3: "(sqrt q < 17 / 10 * R) = (q < (R * (17 / 10)) * (R * (17 / 10)))"
    using sqrt_less_square [of "17 / 10 * R" q] assms(1) by (simp add: mult.commute)
  show ?thesis
    unfolding handForce_def Let_def c1 c2 c3 d2
    by (simp add: power2_eq_square mult.commute)
qed

lemma handForce_bounds:
  assumes "0 \<le> q" "r1Sq \<le> r2Sq" "r2Sq \<le> r3Sq"
  shows "0 \<le> handForce r1Sq r2Sq r3Sq q"
    and "q < r1Sq \<Longrightarrow> handForce r1Sq r2Sq r3Sq q \<le> 10 / 100"
    and "r1Sq \<le> q \<Longrightarrow> handForce r1Sq r2Sq r3Sq q \<le> 35 / 1000"
    and "r2Sq \<le> q \<Longrightarrow> handForce r1Sq r2Sq r3Sq q \<le> 8 / 1000"
    and "r3Sq \<le> q \<Longrightarrow> handForce r1Sq r2Sq r3Sq q = 0"
proof -
  have unit: "0 \<le> t * t \<and> t * t \<le> 1" if "0 \<le> t" "t \<le> 1" for t :: real
    using that by (simp add: mult_le_one)
  have frac: "0 \<le> 1 - (q - a) / (b - a) \<and> 1 - (q - a) / (b - a) \<le> 1"
    if "a \<le> q" "q < b" for a b
    using that by (simp add: field_simps)
  consider (t1) "q < r1Sq" | (t2) "r1Sq \<le> q" "q < r2Sq" | (t3) "r2Sq \<le> q" "q < r3Sq"
    | (t4) "r3Sq \<le> q"
    by linarith
  then have "0 \<le> handForce r1Sq r2Sq r3Sq q
      \<and> (q < r1Sq \<longrightarrow> handForce r1Sq r2Sq r3Sq q \<le> 10 / 100)
      \<and> (r1Sq \<le> q \<longrightarrow> handForce r1Sq r2Sq r3Sq q \<le> 35 / 1000)
      \<and> (r2Sq \<le> q \<longrightarrow> handForce r1Sq r2Sq r3Sq q \<le> 8 / 1000)
      \<and> (r3Sq \<le> q \<longrightarrow> handForce r1Sq r2Sq r3Sq q = 0)"
  proof cases
    case t1
    define t where "t = 1 - q / r1Sq"
    have f: "handForce r1Sq r2Sq r3Sq q = 10 / 100 * (t * t)"
      using t1 by (simp add: handForce_def Let_def t_def)
    have "0 \<le> t \<and> t \<le> 1"
      using frac [of 0 r1Sq] t1 assms(1) by (simp add: t_def)
    then have "0 \<le> t * t \<and> t * t \<le> 1"
      using unit by blast
    then show ?thesis
      using t1 assms by (simp add: f)
  next
    case t2
    define t where "t = 1 - (q - r1Sq) / (r2Sq - r1Sq)"
    have f: "handForce r1Sq r2Sq r3Sq q = 35 / 1000 * (t * t)"
      using t2 by (simp add: handForce_def Let_def t_def)
    have "0 \<le> t \<and> t \<le> 1"
      using frac [of r1Sq r2Sq] t2 by (simp add: t_def)
    then have "0 \<le> t * t \<and> t * t \<le> 1"
      using unit by blast
    then show ?thesis
      using t2 assms by (simp add: f)
  next
    case t3
    define t where "t = 1 - (q - r2Sq) / (r3Sq - r2Sq)"
    have f: "handForce r1Sq r2Sq r3Sq q = 8 / 1000 * t"
      using t3 assms by (simp add: handForce_def Let_def t_def)
    have "0 \<le> t \<and> t \<le> 1"
      using frac [of r2Sq r3Sq] t3 by (simp add: t_def)
    then show ?thesis
      using t3 assms by (simp add: f)
  next
    case t4
    then have "handForce r1Sq r2Sq r3Sq q = 0"
      using assms by (simp add: handForce_def Let_def)
    then show ?thesis
      using t4 assms by simp
  qed
  then show "0 \<le> handForce r1Sq r2Sq r3Sq q"
    and "q < r1Sq \<Longrightarrow> handForce r1Sq r2Sq r3Sq q \<le> 10 / 100"
    and "r1Sq \<le> q \<Longrightarrow> handForce r1Sq r2Sq r3Sq q \<le> 35 / 1000"
    and "r2Sq \<le> q \<Longrightarrow> handForce r1Sq r2Sq r3Sq q \<le> 8 / 1000"
    and "r3Sq \<le> q \<Longrightarrow> handForce r1Sq r2Sq r3Sq q = 0"
    by blast+
qed

text \<open>
  Claim C8. With the hand present, one tick of \<^const>\<open>updateParticles\<close> changes the
  velocity of particle \<open>i\<close>, compared with the same tick without the hand, by
  \<open>- DAMPING * f * (p - centroid)\<close>: a multiple of the vector from the hand centroid
  to the particle. The factor \<open>f\<close> depends on the distance \<open>d\<close> from the centroid
  and the radii \<open>r1 = 0.45 R\<close>, \<open>r2 = R\<close>, \<open>r3 = 1.7 R\<close> of the dynamic radius
  \<open>R\<close>: quadratic in the falloff variable inside \<open>r1\<close> (at most 0.10) and between
  \<open>r1\<close> and \<open>r2\<close> (at most 0.035), linear between \<open>r2\<close> and \<open>r3\<close> (at most
  0.008), and zero from \<open>r3\<close> on. It is never negative, so the velocity gained
  towards the centroid, \<open>DAMPING * f * d\<^sup>2\<close>, is never negative either.
\<close>

theorem hand_force_field:
  assumes "handPresent s" "i < n" "length (positions s) = n * 3"
    "length (velocities s) = n * 3" "0 \<le> dynamicRadius s"
  shows
   "let R = dynamicRadius s; r1 = 45 / 100 * R; r2 = R; r3 = 17 / 10 * R;
        dx = positions s ! (i * 3) - vec_x (handCentroid s);
        dy = positions s ! (i * 3 + 1) - vec_y (handCentroid s);
        dz = positions s ! (i * 3 + 2) - vec_z (handCentroid s);
        d = sqrt (dx\<^sup>2 + dy\<^sup>2 + dz\<^sup>2);
        f = (if d < r1 then 10 / 100 * (1 - d\<^sup>2 / r1\<^sup>2)\<^sup>2
             else if d < r2 then 35 / 1000 * (1 - (d\<^sup>2 - r1\<^sup>2) / (r2\<^sup>2 - r1\<^sup>2))\<^sup>2
             else if d < r3 then 8 / 1000 * (1 - (d\<^sup>2 - r2\<^sup>2) / (r3\<^sup>2 - r2\<^sup>2))
             else 0);
        v = velocities (updateParticles n rnd s);
        u = velocities (updateParticles n rnd (s\<lparr>handPresent := False\<rparr>))
    in v ! (i * 3) = u ! (i * 3) - DAMPING * f * dx
     \<and> v ! (i * 3 + 1) = u ! (i * 3 + 1) - DAMPING * f * dy
     \<and> v ! (i * 3 + 2) = u ! (i * 3 + 2) - DAMPING * f * dz
     \<and> 0 \<le> f
     \<and> (d < r1 \<longrightarrow> f \<le> 10 / 100)
     \<and> (r1 \<le> d \<longrightarrow> f \<le> 35 / 1000)
     \<and> (r2 \<le> d \<longrightarrow> f \<le> 8 / 1000)
     \<and> (r3 \<le> d \<longrightarrow> f = 0)
     \<and> (u ! (i * 3) - v ! (i * 3)) * dx + (u ! (i * 3 + 1) - v ! (i * 3 + 1)) * dy
         + (u ! (i * 3 + 2) - v ! (i * 3 + 2)) * dz = DAMPING * f * d\<^sup>2
     \<and> 0 \<le> DAMPING * f * d\<^sup>2"
proof -
  define R where "R = dynamicRadius s"
  define dx where "dx = positions s ! (i * 3) - vec_x (handCentroid s)"
  define dy where "dy = positions s ! (i * 3 + 1) - vec_y (handCentroid s)"
  define dz where "dz = positions s ! (i * 3 + 2) - vec_z (handCentroid s)"
  define q where "q = dx * dx + dy * dy + dz * dz"
  define d where "d = sqrt q"
  define F where "F = handForce ((R * (45 / 100)) * (R * (45 / 100))) ((R * 1) * (R * 1))
           ((R * (17 / 10)) * (R * (17 / 10))) q"
  define f where "f = (if d < 45 / 100 * R then 10 / 100 * (1 - d\<^sup>2 / (45 / 100 * R)\<^sup>2)\<^sup>2
             else if d < R then 35 / 1000 * (1 - (d\<^sup>2 - (45 / 100 * R)\<^sup>2) / (R\<^sup>2 - (45 / 100 * R)\<^sup>2))\<^sup>2
             else if d < 17 / 10 * R then 8 / 1000 * (1 - (d\<^sup>2 - R\<^sup>2) / ((17 / 10 * R)\<^sup>2 - R\<^sup>2))
             else 0)"
  define v where "v = velocities (updateParticles n rnd s)"
  define u where "u = velocities (updateParticles n rnd (s\<lparr>handPresent := False\<rparr>))"
  have R0: "0 \<le> R" using assms(5) by (simp add: R_def)
  have q0: "0 \<le> q" by (simp add: q_def)
  have qsq: "dx\<^sup>2 + dy\<^sup>2 + dz\<^sup>2 = q" by (simp add: q_def power2_eq_square)
  have d2: "d\<^sup>2 = q" using q0 by (simp add: d_def)
  have Ff: "F = f"
    unfolding F_def f_def d_def
    using handForce_by_distance [OF R0 q0] by (simp add: Let_def)
  have ord: "(R * (45 / 100)) * (R * (45 / 100)) \<le> (R * 1) * (R * 1)"
    "(R * 1) * (R * 1) \<le> (R * (17 / 10)) * (R * (17 / 10))"
    using R0 by (simp_all add: mult_mono)
  note hb = handForce_bounds [OF q0 ord, folded F_def]
  have lt: "(d < r) = (q < r * r)" if "0 \<le> r" for r
    using sqrt_less_square [OF that, of q] by (simp add: d_def)
  have le: "(r \<le> d) = (r * r \<le> q)" if "0 \<le> r" for r
    using lt [OF that] by linarith
  have b1: "d < 45 / 100 * R \<Longrightarrow> F \<le> 10 / 100"
    using hb(2) lt [of "45 / 100 * R"] R0 by (simp add: mult.commute)
  have b2: "45 / 100 * R \<le> d \<Longrightarrow> F \<le> 35 / 1000"
    using hb(3) le [of "45 / 100 * R"] R0 by (simp add: mult.commute)
  have b3: "R \<le> d \<Longrightarrow> F \<le> 8 / 1000"
    using hb(4) le [of R] R0 by simp
  have b4: "17 / 10 * R \<le> d \<Longrightarrow> F = 0"
    using hb(5) le [of "17 / 10 * R"] R0 by (simp add: mult.commute)
  have gv: "get3 v i = particleVelocity R (handCentroid s) True (isExploding s) rnd
             (targets s) (positions s) (velocities s) i"
    using updateParticles_particle(1) [OF assms(2,3,4), of rnd] assms(1) by (simp add: v_def R_def)
  have gu: "get3 u i = particleVelocity R (handCentroid s) False (isExploding s) rnd
             (targets s) (positions s) (velocities s) i"
    using updateParticles_particle(1) [of i n "s\<lparr>handPresent := False\<rparr>" rnd] assms(2,3,4)
    by (simp add: u_def R_def)
  have diff: "v ! (i * 3) = u ! (i * 3) - DAMPING * F * dx"
    "v ! (i * 3 + 1) = u ! (i * 3 + 1) - DAMPING * F * dy"
    "v ! (i * 3 + 2) = u ! (i * 3 + 2) - DAMPING * F * dz"
    using gv gu
    by (simp_all add: get3_def particleVelocity_def Let_def F_def q_def dx_def dy_def dz_def
        algebra_simps)
  have dot: "(u ! (i * 3) - v ! (i * 3)) * dx + (u ! (i * 3 + 1) - v ! (i * 3 + 1)) * dy
         + (u ! (i * 3 + 2) - v ! (i * 3 + 2)) * dz = DAMPING * F * d\<^sup>2"
    unfolding diff d2 q_def by (simp add: algebra_simps)
  have pos: "0 \<le> DAMPING * F * d\<^sup>2"
    using hb(1) by (simp add: DAMPING_def)
  show ?thesis
    unfolding Let_def
    unfolding R_def [symmetric] dx_def [symmetric] dy_def [symmetric] dz_def [symmetric]
    unfolding qsq d_def [symmetric] f_def [symmetric] v_def [symmetric] u_def [symmetric]
    using diff dot pos hb(1) b1 b2 b3 b4 unfolding Ff by blast
qed


theorem hand_force_field_witness:
  "handPresent oneParticle \<and> (0::nat) < 1 \<and> length (positions oneParticle) = 1 * 3
   \<and> length (velocities oneParticle) = 1 * 3 \<and> 0 \<le> dynamicRadius oneParticle
   \<and> velocities (updateParticles 1 (\<lambda>k. 1 / 2) oneParticle) ! 0 =
       velocities (updateParticles 1 (\<lambda>k. 1 / 2) (oneParticle\<lparr>handPresent := False\<rparr>)) ! 0
         - DAMPING * (8 / 1000) * 1"
proof -
  have h: "handPresent oneParticle" "(0::nat) < 1" "length (positions oneParticle) = 1 * 3"
    "length (velocities oneParticle) = 1 * 3" "0 \<le> dynamicRadius oneParticle"
    by (simp_all add: oneParticle_def initialState_def)
  have "velocities (updateParticles 1 (\<lambda>k. 1 / 2) oneParticle) ! 0 =
       velocities (updateParticles 1 (\<lambda>k. 1 / 2) (oneParticle\<lparr>handPresent := False\<rparr>)) ! 0
         - DAMPING * (8 / 1000) * 1"
    using hand_force_field [OF h, of "\<lambda>k. 1 / 2"]
    by (simp add: Let_def oneParticle_def initialState_def defaultVector_def)
  then show ?thesis
    using h by simp
qed

lemma tickWith_lengths:
  assumes "length (positions s) = n * 3" "length (velocities s) = n * 3"
  shows "length (positions (tickWith n rnd inp s)) = n * 3"
    and "length (velocities (tickWith n rnd inp s)) = n * 3"
proof -
  define s' where "s' = s\<lparr>targets := fst inp, handPresent := fst (snd inp), isExploding := snd (snd inp)\<rparr>"
  have l: "length (positions s') = n * 3" "length (velocities s') = n * 3"
    using assms by (simp_all add: s'_def)
  show "length (positions (tickWith n rnd inp s)) = n * 3"
    and "length (velocities (tickWith n rnd inp s)) = n * 3"
    using updateParticles_loop [OF l order_refl, of "dynamicRadius s'" "handCentroid s'"
      "handPresent s'" "isExploding s'" rnd "targets s'"]
    by (simp_all add: tickWith_def s'_def [symmetric] updateParticles_def Let_def)
qed

lemma tickWith_damped:
  assumes "i < n" "length (positions s) = n * 3" "length (velocities s) = n * 3"
    "\<not> fst (snd inp)" "\<not> snd (snd inp)" "get3 (fst inp) i = get3 (positions s) i"
  shows "velocities (tickWith n rnd inp s) ! (i * 3) = DAMPING * velocities s ! (i * 3)"
    and "velocities (tickWith n rnd inp s) ! (i * 3 + 1) = DAMPING * velocities s ! (i * 3 + 1)"
    and "velocities (tickWith n rnd inp s) ! (i * 3 + 2) = DAMPING * velocities s ! (i * 3 + 2)"
proof -
  define s' where "s' = s\<lparr>targets := fst inp, handPresent := fst (snd inp), isExploding := snd (snd inp)\<rparr>"
  have l: "length (positions s') = n * 3" "length (velocities s') = n * 3"
    using assms by (simp_all add: s'_def)
  have g: "get3 (velocities (tickWith n rnd inp s)) i =
      particleVelocity (dynamicRadius s') (handCentroid s') False False rnd (fst inp)
        (positions s) (velocities s) i"
    using updateParticles_particle(1) [OF assms(1) l, of rnd] assms(4,5)
    by (simp add: tickWith_def s'_def)
  show "velocities (tickWith n rnd inp s) ! (i * 3) = DAMPING * velocities s ! (i * 3)"
    and "velocities (tickWith n rnd inp s) ! (i * 3 + 1) = DAMPING * velocities s ! (i * 3 + 1)"
    and "velocities (tickWith n rnd inp s) ! (i * 3 + 2) = DAMPING * velocities s ! (i * 3 + 2)"
    using g assms(6) by (simp_all add: get3_def particleVelocity_def Let_def)
qed

text \<open>
  Claim C4. If on each of \<open>T\<close> consecutive ticks the hand is absent, no explosion
  is on and the target of particle \<open>i\<close> is the particle's position, then after
  the \<open>T\<close> ticks each velocity component of the particle is \<open>DAMPING ^ T\<close> times
  its initial value, and so is the length of its velocity; \<open>DAMPING\<close> lies
  strictly between 0 and 1.
\<close>

theorem damping_decay:
  "i < n \<Longrightarrow> length (positions s) = n * 3 \<Longrightarrow> length (velocities s) = n * 3 \<Longrightarrow>
   zeroForcing i n rnd inputs s \<Longrightarrow>
   velocities (runTicks n rnd inputs s) ! (i * 3) = DAMPING ^ length inputs * velocities s ! (i * 3)
   \<and> velocities (runTicks n rnd inputs s) ! (i * 3 + 1)
       = DAMPING ^ length inputs * velocities s ! (i * 3 + 1)
   \<and> velocities (runTicks n rnd inputs s) ! (i * 3 + 2)
       = DAMPING ^ length inputs * velocities s ! (i * 3 + 2)
   \<and> sqrt ((velocities (runTicks n rnd inputs s) ! (i * 3))\<^sup>2
          + (velocities (runTicks n rnd inputs s) ! (i * 3 + 1))\<^sup>2
          + (velocities (runTicks n rnd inputs s) ! (i * 3 + 2))\<^sup>2)
       = DAMPING ^ length inputs
         * sqrt ((velocities s ! (i * 3))\<^sup>2 + (velocities s ! (i * 3 + 1))\<^sup>2
                 + (velocities s ! (i * 3 + 2))\<^sup>2)
   \<and> 0 < DAMPING \<and> DAMPING < 1"
proof -
  assume i: "i < n"
  have comp: "length (positions s) = n * 3 \<Longrightarrow> length (velocities s) = n * 3 \<Longrightarrow>
     zeroForcing i n rnd inputs s \<Longrightarrow>
     (\<forall>k<3. velocities (runTicks n rnd inputs s) ! (i * 3 + k)
          = DAMPING ^ length inputs * velocities s ! (i * 3 + k))"
  proof (induction inputs arbitrary: s)
    case Nil
    then show ?case by simp
  next
    case (Cons inp rest)
    from Cons.prems(3) have z: "\<not> fst (snd inp)" "\<not> snd (snd inp)"
      "get3 (fst inp) i = get3 (positions s) i" "zeroForcing i n rnd rest (tickWith n rnd inp s)"
      by simp_all
    note l = tickWith_lengths [OF Cons.prems(1,2), of rnd inp]
    note d = tickWith_damped [OF i Cons.prems(1,2) z(1,2,3), of rnd]
    have one: "\<forall>k<3. velocities (tickWith n rnd inp s) ! (i * 3 + k)
        = DAMPING * velocities s ! (i * 3 + k)"
    proof (intro allI impI)
      fix k :: nat
      assume "k < 3"
      then consider "k = 0" | "k = 1" | "k = 2" by linarith
      then show "velocities (tickWith n rnd inp s) ! (i * 3 + k)
        = DAMPING * velocities s ! (i * 3 + k)"
        using d by cases simp_all
    qed
    show ?case
      using Cons.IH [OF l z(4)] one by (simp add: mult.assoc)
  qed
  assume "length (positions s) = n * 3" "length (velocities s) = n * 3"
    "zeroForcing i n rnd inputs s"
  from comp [OF this] have c: 
    "velocities (runTicks n rnd inputs s) ! (i * 3) = DAMPING ^ length inputs * velocities s ! (i * 3)"
    "velocities (runTicks n rnd inputs s) ! (i * 3 + 1) = DAMPING ^ length inputs * velocities s ! (i * 3 + 1)"
    "velocities (runTicks n rnd inputs s) ! (i * 3 + 2) = DAMPING ^ length inputs * velocities s ! (i * 3 + 2)"
    by (auto dest: spec [of _ 0] spec [of _ 1] spec [of _ 2])
  have D: "0 \<le> DAMPING ^ length inputs"
    by (simp add: DAMPING_def)
  have norm: "sqrt ((D * a)\<^sup>2 + (D * b)\<^sup>2 + (D * e)\<^sup>2) = D * sqrt (a\<^sup>2 + b\<^sup>2 + e\<^sup>2)"
    if "0 \<le> D" for D a b e :: real
  proof -
    have "(D * a)\<^sup>2 + (D * b)\<^sup>2 + (D * e)\<^sup>2 = D\<^sup>2 * (a\<^sup>2 + b\<^sup>2 + e\<^sup>2)"
      by (simp add: power_mult_distrib algebra_simps)
    then show ?thesis
      using that by (simp add: real_sqrt_mult)
  qed
  show ?thesis
    unfolding c using norm [OF D] by (simp add: DAMPING_def)
qed

theorem damping_decay_witness:
  "(0::nat) < 1 \<and> length (positions movingParticle) = 1 * 3
   \<and> length (velocities movingParticle) = 1 * 3
   \<and> zeroForcing 0 1 (\<lambda>k. 1 / 2) followingTargets movingParticle
   \<and> velocities (runTicks 1 (\<lambda>k. 1 / 2) followingTargets movingParticle) ! 0 = DAMPING ^ 2 * 1
   \<and> velocities (runTicks 1 (\<lambda>k. 1 / 2) followingTargets movingParticle) ! (0 * 3 + 2)
       = DAMPING ^ 2 * 2"
proof -
  have h: "(0::nat) < 1" "length (positions movingParticle) = 1 * 3"
    "length (velocities movingParticle) = 1 * 3"
    by (simp_all add: movingParticle_def initialState_def)
  have z: "zeroForcing 0 1 (\<lambda>k. 1 / 2) followingTargets movingParticle"
    by (simp add: followingTargets_def movingParticle_def initialState_def tickWith_def
        updateParticles_def updateParticle_def get3_def Let_def DAMPING_def RETURN_SPEED_def)
  have l: "length followingTargets = 2"
    by (simp add: followingTargets_def)
  have v: "velocities movingParticle = [1, 2, 2]"
    by (simp add: movingParticle_def)
  from damping_decay [OF h z] show ?thesis
    using h z by (simp add: l v)
qed

section \<open>Properties of the frame scheduler\<close>

lemma rainbowParticles_hand [simp]:
  "handPresent (rainbowParticles n hsl s) = handPresent s"
  "followVelocity (rainbowParticles n hsl s) = followVelocity s"
  by (simp_all add: rainbowParticles_def markColorsUpdated_def Let_def)

lemma updateParticles_hand [simp]:
  "handPresent (updateParticles n rnd s) = handPresent s"
  "followVelocity (updateParticles n rnd s) = followVelocity s"
  by (simp_all add: updateParticles_def Let_def)

lemma animateRainbow_hand [simp]:
  "handPresent (animateRainbow n interval hsl s) = handPresent s"
  "followVelocity (animateRainbow n interval hsl s) = followVelocity s"
  by (simp_all add: animateRainbow_def Let_def)

lemma animateDepthPush_hand [simp]:
  "handPresent (animateDepthPush s) = handPresent s"
  "followVelocity (animateDepthPush s) = followVelocity s"
  by (simp_all add: animateDepthPush_def split: option.split)

lemma animateOcclusion_hand [simp]:
  "handPresent (animateOcclusion s) = handPresent s"
  "followVelocity (animateOcclusion s) = followVelocity s"
  by (simp_all add: animateOcclusion_def split: option.split)

lemma animateColorDirty_hand [simp]:
  "handPresent (animateColorDirty s) = handPresent s"
  "followVelocity (animateColorDirty s) = followVelocity s"
  by (simp_all add: animateColorDirty_def)

lemma animateMesh_hand [simp]:
  "handPresent (animateMesh s) = handPresent s"
  "followVelocity (animateMesh s) = followVelocity s"
  by (simp_all add: animateMesh_def Let_def)

text \<open>
  Claim C3. On a render tick that finds \<open>now - lastHandTimestamp > 800\<close>, the
  state that \<^const>\<open>animate\<close> leaves has \<open>handPresent = false\<close> and a zero
  \<open>followVelocity\<close>, whatever the rest of the state is.
\<close>

theorem animate_staleness:
  "now - lastHandTimestamp s > 800 \<Longrightarrow>
   handPresent (animate n interval hsl rnd now s) = False
   \<and> followVelocity (animate n interval hsl rnd now s) = Vector3 0 0 0"
  by (simp add: animate_def animateStaleness_def)

theorem animate_staleness_witness:
  "1000 - lastHandTimestamp staleHand > 800 \<and> handPresent staleHand
   \<and> followVelocity staleHand = Vector3 1 2 3
   \<and> handPresent (animate 1 3 (\<lambda>h. (h, h, h)) (\<lambda>k. 1 / 2) 1000 staleHand) = False
   \<and> followVelocity (animate 1 3 (\<lambda>h. (h, h, h)) (\<lambda>k. 1 / 2) 1000 staleHand) = Vector3 0 0 0"
proof -
  have h: "1000 - lastHandTimestamp staleHand > 800"
    by (simp add: staleHand_def initialState_def)
  from animate_staleness [OF h] show ?thesis
    using h by (simp add: staleHand_def initialState_def)
qed

section \<open>Properties of the text shape generator\<close>

text \<open>Whenever the sampling ends with no point, the generator throws as soon as
  there is a particle to place.\<close>

lemma generateText_no_points:
  assumes "sampleRows fl pixels canvasWidth canvasHeight samplingStep scale 0 [] = Some []"
    and "0 < n"
  shows "generateText fl pixels canvasWidth canvasHeight samplingStep scale n rnd tgt
           = Some (Inl TypeError)"
proof -
  from assms(2) have "[0..<n] = 0 # [1..<n]"
    by (simp add: upt_conv_Cons)
  then show ?thesis
    using assms(1) by (simp add: generateText_def)
qed

text \<open>
  Claim C7 says that a bitmap without foreground pixels still fills every target
  and never throws. On a black 2 by 2 canvas (red, green, blue 0, alpha 255),
  sampled with step 2, and one particle the generator throws: the sampled point
  set is empty, \<open>len\<close> is 1, and \<^verbatim>\<open>validPoints[0]\<close> is \<^verbatim>\<open>undefined\<close>. The loop
  variables only take the values 0 and 2 here; the sum 0 + 2 is a double, which
  the rounding leaves as it is.
\<close>

theorem generateText_empty_throws:
  "fl 2 = 2 \<Longrightarrow>
   generateText fl [0, 0, 0, 255, 0, 0, 0, 255, 0, 0, 0, 255, 0, 0, 0, 255] 2 2 2 (1 / 20) 1
     (\<lambda>k. 1 / 2) [0, 0, 0] = Some (Inl TypeError)"
proof -
  assume fl: "fl 2 = 2"
  define px :: "nat list" where "px = [0, 0, 0, 255, 0, 0, 0, 255, 0, 0, 0, 255, 0, 0, 0, 255]"
  have stop: "sampleRow fl px 2 2 2 (1 / 20) 0 2 [] = Some []"
    by (subst sampleRow.simps) simp
  have row: "sampleRow fl px 2 2 2 (1 / 20) 0 0 [] = Some []"
    by (subst sampleRow.simps) (simp add: px_def fl stop [unfolded px_def])
  have fin: "sampleRows fl px 2 2 2 (1 / 20) 2 [] = Some []"
    by (subst sampleRows.simps) simp
  have rows: "sampleRows fl px 2 2 2 (1 / 20) 0 [] = Some []"
    by (subst sampleRows.simps) (simp add: row fl fin)
  show ?thesis
    unfolding px_def [symmetric] by (rule generateText_no_points [OF rows]) simp
qed

theorem generateText_empty_throws_witness:
  "(\<lambda>x. x) (2::real) = 2
   \<and> generateText (\<lambda>x. x) [0, 0, 0, 255, 0, 0, 0, 255, 0, 0, 0, 255, 0, 0, 0, 255] 2 2 2 (1 / 20) 1
       (\<lambda>k. 1 / 2) [0, 0, 0] = Some (Inl TypeError)"
  using generateText_empty_throws [of "\<lambda>x. x"] by simp

section \<open>Properties of the depth push\<close>

lemma depthPushLoop_step:
  assumes "k * 3 + 2 < length posArray" "length vel = length posArray"
  shows "depthPushLoop (k * 3) posArray c radius ps vel =
         depthPushLoop (Suc k * 3) posArray c radius ps
           (let w = vadd3 (get3 vel k) (depthPushDelta posArray c radius ps k)
            in upd3 vel (k * 3) (fst w) (fst (snd w)) (snd (snd w)))"
proof -
  have lt: "k * 3 < length posArray"
    using assms(1) by simp
  have suc: "k * 3 + 3 = Suc k * 3"
    by simp
  define dx where "dx = posArray ! (k * 3) - vec_x c"
  define dy where "dy = posArray ! (k * 3 + 1) - vec_y c"
  define dz where "dz = posArray ! (k * 3 + 2) - vec_z c"
  define q where "q = dx * dx + dy * dy + dz * dz"
  show ?thesis
  proof (cases "q < radius * radius")
    case True
    have d: "depthPushDelta posArray c radius ps k =
        ((dx / (sqrt q + EPS)) * ((1 - (sqrt q + EPS) / radius) * ps),
         (dy / (sqrt q + EPS)) * ((1 - (sqrt q + EPS) / radius) * ps),
         (dz / (sqrt q + EPS)) * ((1 - (sqrt q + EPS) / radius) * ps))"
      using True unfolding depthPushDelta_def Let_def dx_def [symmetric] dy_def [symmetric]
        dz_def [symmetric] q_def [symmetric] by simp
    show ?thesis
      apply (subst depthPushLoop.simps)
      unfolding Let_def d dx_def [symmetric] dy_def [symmetric] dz_def [symmetric]
        q_def [symmetric] suc upd3_def [symmetric]
      using True lt by (simp add: vadd3_def get3_def)
  next
    case False
    have d: "depthPushDelta posArray c radius ps k = (0, 0, 0)"
      using False unfolding depthPushDelta_def Let_def dx_def [symmetric] dy_def [symmetric]
        dz_def [symmetric] q_def [symmetric] by simp
    have same: "upd3 vel (k * 3) (vel ! (k * 3)) (vel ! (k * 3 + 1)) (vel ! (k * 3 + 2)) = vel"
      by (rule upd3_same)
    show ?thesis
      apply (subst depthPushLoop.simps)
      unfolding Let_def d dx_def [symmetric] dy_def [symmetric] dz_def [symmetric]
        q_def [symmetric] suc
      using False lt same by (simp add: vadd3_def get3_def)
  qed
qed

lemma depthPushLoop_particles:
  assumes "length posArray = n * 3"
  shows "length vel = n * 3 \<Longrightarrow> k \<le> n \<Longrightarrow>
     length (depthPushLoop (k * 3) posArray c radius ps vel) = n * 3
     \<and> (\<forall>m<n. get3 (depthPushLoop (k * 3) posArray c radius ps vel) m =
           (if k \<le> m then vadd3 (get3 vel m) (depthPushDelta posArray c radius ps m)
            else get3 vel m))"
proof (induction "n - k" arbitrary: k vel)
  case 0
  then have "k = n" by simp
  then have "depthPushLoop (k * 3) posArray c radius ps vel = vel"
    using assms by (subst depthPushLoop.simps) simp
  then show ?case
    using "0.prems" \<open>k = n\<close> by simp
next
  case (Suc d)
  then have k: "k < n" by simp
  have rng: "k * 3 + 2 < length posArray" "k * 3 + 2 < length vel"
    using k assms Suc.prems(1) by simp_all
  define w where "w = vadd3 (get3 vel k) (depthPushDelta posArray c radius ps k)"
  define vel' where "vel' = upd3 vel (k * 3) (fst w) (fst (snd w)) (snd (snd w))"
  have step: "depthPushLoop (k * 3) posArray c radius ps vel
      = depthPushLoop (Suc k * 3) posArray c radius ps vel'"
    using depthPushLoop_step [OF rng(1), of vel c radius ps] assms Suc.prems(1)
    by (simp add: Let_def w_def vel'_def)
  have len': "length vel' = n * 3"
    using Suc.prems(1) by (simp add: vel'_def)
  have g: "get3 vel' m = (if m = k then w else get3 vel m)" for m
    using get3_upd3 [OF rng(2), of "fst w" "fst (snd w)" "snd (snd w)" m]
    by (simp add: vel'_def)
  have d: "d = n - Suc k"
    using Suc.hyps(2) by simp
  note IH = Suc.hyps(1) [OF d len', of ]
  have "Suc k \<le> n" using k by simp
  from IH [OF this] show ?case
    unfolding step using g by (auto simp: w_def not_less_eq_eq)
qed


lemma sqrt_lt_radius:
  assumes "0 < r"
  shows "(q < r * r) = (sqrt q < r)"
  using sqrt_less_square [of r q] assms by simp

text \<open>
  What the call does to particle \<open>m\<close>. It returns a velocities array of the same
  length and writes nothing else: in the frame scheduler only the field
  \<open>velocities\<close> can differ after the call. With \<open>radius = max (1.2 * handRadius)
  EPS\<close> and \<open>e\<close> the Euclidean distance of the particle from the hand centroid:
  if \<open>radius \<le> e\<close> its three velocity entries are unchanged; if \<open>e < radius\<close>
  entry \<open>k\<close> gains \<open>(d\<^sub>k / dist) * (1 - dist / radius) * pushStrength\<close> with
  \<open>dist = e + EPS\<close>, which is a push away from the centroid only while
  \<open>e + EPS \<le> radius\<close>.
\<close>

lemma depthPush_particle:
  assumes "length posArray = n * 3" "length vel = n * 3" "m < n"
  shows
   "let radius = max (12 / 10 * handRadius) EPS;
        dx = posArray ! (m * 3) - vec_x c;
        dy = posArray ! (m * 3 + 1) - vec_y c;
        dz = posArray ! (m * 3 + 2) - vec_z c;
        e = sqrt (dx\<^sup>2 + dy\<^sup>2 + dz\<^sup>2);
        dist = e + EPS;
        coef = (1 - dist / radius) * pushStrength
    in (case applyDepthPushToParticles (Some posArray) (Some vel) (Some c) handRadius
               (Some pushStrength) of
          None \<Rightarrow> False
        | Some v \<Rightarrow>
            length v = length vel
          \<and> (radius \<le> e \<longrightarrow>
               v ! (m * 3) = vel ! (m * 3) \<and> v ! (m * 3 + 1) = vel ! (m * 3 + 1)
             \<and> v ! (m * 3 + 2) = vel ! (m * 3 + 2))
          \<and> (e < radius \<longrightarrow>
               v ! (m * 3) = vel ! (m * 3) + dx / dist * coef
             \<and> v ! (m * 3 + 1) = vel ! (m * 3 + 1) + dy / dist * coef
             \<and> v ! (m * 3 + 2) = vel ! (m * 3 + 2) + dz / dist * coef))
     \<and> (e + EPS \<le> radius \<and> 0 \<le> pushStrength \<longrightarrow> 0 \<le> coef / dist)
     \<and> animateDepthPush s = s\<lparr>velocities := velocities (animateDepthPush s)\<rparr>"
proof -
  define radius where "radius = max (12 / 10 * handRadius) EPS"
  define dx where "dx = posArray ! (m * 3) - vec_x c"
  define dy where "dy = posArray ! (m * 3 + 1) - vec_y c"
  define dz where "dz = posArray ! (m * 3 + 2) - vec_z c"
  define q where "q = dx * dx + dy * dy + dz * dz"
  define e where "e = sqrt q"
  define coef where "coef = (1 - (e + EPS) / radius) * pushStrength"
  define v where "v = depthPushLoop 0 posArray c radius pushStrength vel"
  have rpos: "0 < radius"
    by (simp add: radius_def EPS_def max_def)
  have epos: "0 \<le> e" "0 < e + EPS"
    by (simp_all add: e_def q_def EPS_def add_nonneg_pos)
  have qsq: "dx\<^sup>2 + dy\<^sup>2 + dz\<^sup>2 = q"
    by (simp add: q_def power2_eq_square)
  have app: "applyDepthPushToParticles (Some posArray) (Some vel) (Some c) handRadius
               (Some pushStrength) = Some v"
    by (simp add: applyDepthPushToParticles_def v_def radius_def js_or_def mult.commute)
  from depthPushLoop_particles [OF assms(1,2), of 0 c radius pushStrength] assms(3)
  have len: "length v = n * 3"
    and g: "get3 v m = vadd3 (get3 vel m) (depthPushDelta posArray c radius pushStrength m)"
    by (simp_all add: v_def)
  have delta: "depthPushDelta posArray c radius pushStrength m =
      (if e < radius then (dx / (e + EPS) * coef, dy / (e + EPS) * coef, dz / (e + EPS) * coef)
       else (0, 0, 0))"
    unfolding depthPushDelta_def Let_def dx_def [symmetric] dy_def [symmetric]
      dz_def [symmetric] q_def [symmetric] sqrt_lt_radius [OF rpos] e_def [symmetric]
      coef_def [symmetric]
    by simp
  have far: "v ! (m * 3) = vel ! (m * 3) \<and> v ! (m * 3 + 1) = vel ! (m * 3 + 1)
      \<and> v ! (m * 3 + 2) = vel ! (m * 3 + 2)" if "radius \<le> e"
    using g that by (simp add: delta get3_def vadd3_def)
  have near: "v ! (m * 3) = vel ! (m * 3) + dx / (e + EPS) * coef
      \<and> v ! (m * 3 + 1) = vel ! (m * 3 + 1) + dy / (e + EPS) * coef
      \<and> v ! (m * 3 + 2) = vel ! (m * 3 + 2) + dz / (e + EPS) * coef" if "e < radius"
    using g that by (simp add: delta get3_def vadd3_def)
  have out: "0 \<le> coef / (e + EPS)" if "e + EPS \<le> radius" "0 \<le> pushStrength"
  proof -
    have "(e + EPS) / radius \<le> 1"
      using that(1) rpos by simp
    then have "0 \<le> coef"
      using that(2) by (simp add: coef_def)
    then show ?thesis
      using epos(2) by simp
  qed
  have frame: "animateDepthPush s = s\<lparr>velocities := velocities (animateDepthPush s)\<rparr>"
    by (simp add: animateDepthPush_def split: option.split)
  show ?thesis
    unfolding Let_def
    unfolding radius_def [symmetric] dx_def [symmetric] dy_def [symmetric] dz_def [symmetric]
    unfolding qsq e_def [symmetric] coef_def [symmetric] app
    using len assms(2) far near out frame by simp
qed


text \<open>
  Claim C10 says that every particle strictly inside the radius gains an outward
  push. With hand radius 1 the radius is 1.2; a particle at distance 1.1999995
  is strictly inside, yet \<open>dist = 1.1999995 + EPS\<close> exceeds the radius, the factor
  \<open>1 - dist / radius\<close> is negative, and the velocity, zero before the call, points
  towards the centroid after it.
\<close>

theorem depth_push_pulls_inward:
  "sqrt ((2399999 / 2000000 - 0)\<^sup>2 + 0\<^sup>2 + 0\<^sup>2) < max (12 / 10 * 1) EPS
   \<and> applyDepthPushToParticles (Some [2399999 / 2000000, 0, 0]) (Some [0, 0, 0])
        (Some (Vector3 0 0 0)) 1 (Some (18 / 100))
       = Some [- (7199997 / 96000040000000), 0, 0]"
proof -
  have sq: "sqrt (5759995200001 / 4000000000000) = (2399999 / 2000000 :: real)"
    by (rule real_sqrt_unique) (simp_all add: power2_eq_square)
  have sq2: "sqrt ((2399999 / 2000000)\<^sup>2) = (2399999 / 2000000 :: real)"
    by simp
  have "depthPushLoop 0 [2399999 / 2000000, 0, 0] (Vector3 0 0 0) (12 / 10) (18 / 100) [0, 0, 0]
      = [- (7199997 / 96000040000000), 0, 0]"
    apply (subst depthPushLoop.simps)
    apply (simp add: Let_def sq EPS_def)
    apply (subst depthPushLoop.simps)
    apply simp
    done
  then show ?thesis
    by (simp add: applyDepthPushToParticles_def js_or_def sq2 EPS_def)
qed

section \<open>Properties of the occlusion fade\<close>

lemma occlusionStep_particle:
  assumes "i * 3 + 2 < length cols" "i < length occ"
  shows "occlusionStep posArray c hr hp maxFade i (cols, occ, ch) =
     (let fade = occlusionFade posArray c hr hp maxFade i;
          prev = occ ! i
      in (upd3 cols (i * 3) (occlusionColor fade prev (cols ! (i * 3)))
            (occlusionColor fade prev (cols ! (i * 3 + 1)))
            (occlusionColor fade prev (cols ! (i * 3 + 2))),
          occ[i := occlusionFactor fade prev],
          snd (snd (occlusionStep posArray c hr hp maxFade i (cols, occ, ch)))))"
proof -
  have same: "upd3 cols (i * 3) (cols ! (i * 3)) (cols ! (i * 3 + 1)) (cols ! (i * 3 + 2)) = cols"
    by (rule upd3_same)
  show ?thesis
    unfolding occlusionStep_def occlusionFade_def occlusionFactor_def occlusionColor_def Let_def
      upd3_def [symmetric]
    using same by (simp add: not_le not_less)
qed


lemma occlusion_loop:
  assumes "length cols = n * 3" "length occ = n" "m \<le> n"
  shows "length (fst (fold (occlusionStep posArray c hr hp maxFade) [0..<m] (cols, occ, ch))) = n * 3
    \<and> length (fst (snd (fold (occlusionStep posArray c hr hp maxFade) [0..<m] (cols, occ, ch)))) = n
    \<and> (\<forall>i<n. fst (snd (fold (occlusionStep posArray c hr hp maxFade) [0..<m] (cols, occ, ch))) ! i =
          (if i < m then occlusionFactor (occlusionFade posArray c hr hp maxFade i) (occ ! i)
           else occ ! i))
    \<and> (\<forall>i<n. get3 (fst (fold (occlusionStep posArray c hr hp maxFade) [0..<m] (cols, occ, ch))) i =
          (if i < m then
             (occlusionColor (occlusionFade posArray c hr hp maxFade i) (occ ! i) (cols ! (i * 3)),
              occlusionColor (occlusionFade posArray c hr hp maxFade i) (occ ! i) (cols ! (i * 3 + 1)),
              occlusionColor (occlusionFade posArray c hr hp maxFade i) (occ ! i) (cols ! (i * 3 + 2)))
           else get3 cols i))"
  using assms(3)
proof (induction m)
  case 0
  then show ?case using assms by simp
next
  case (Suc m)
  define st where "st = fold (occlusionStep posArray c hr hp maxFade) [0..<m] (cols, occ, ch)"
  define C where "C = fst st"
  define Oc where "Oc = fst (snd st)"
  define h where "h = snd (snd st)"
  have st: "st = (C, Oc, h)"
    by (simp add: C_def Oc_def h_def)
  from Suc have m: "m < n" by simp
  from Suc.IH m have lenC: "length C = n * 3" and lenO: "length Oc = n"
    and IHO: "\<And>i. i < n \<Longrightarrow> Oc ! i =
          (if i < m then occlusionFactor (occlusionFade posArray c hr hp maxFade i) (occ ! i)
           else occ ! i)"
    and IHC: "\<And>i. i < n \<Longrightarrow> get3 C i =
          (if i < m then
             (occlusionColor (occlusionFade posArray c hr hp maxFade i) (occ ! i) (cols ! (i * 3)),
              occlusionColor (occlusionFade posArray c hr hp maxFade i) (occ ! i) (cols ! (i * 3 + 1)),
              occlusionColor (occlusionFade posArray c hr hp maxFade i) (occ ! i) (cols ! (i * 3 + 2)))
           else get3 cols i)"
    by (simp_all add: st_def [symmetric] C_def Oc_def)
  have rng: "m * 3 + 2 < length C" "m < length Oc"
    using m lenC lenO by simp_all
  have gC: "get3 C m = get3 cols m" and gO: "Oc ! m = occ ! m"
    using IHC [OF m] IHO [OF m] by simp_all
  then have Cm: "C ! (m * 3) = cols ! (m * 3)" "C ! (m * 3 + 1) = cols ! (m * 3 + 1)"
    "C ! (m * 3 + 2) = cols ! (m * 3 + 2)"
    by (simp_all add: get3_def)
  have step: "fold (occlusionStep posArray c hr hp maxFade) [0..<Suc m] (cols, occ, ch)
      = occlusionStep posArray c hr hp maxFade m (C, Oc, h)"
    by (simp add: st_def [symmetric] st)
  define fade where "fade = occlusionFade posArray c hr hp maxFade m"
  note part = occlusionStep_particle [OF rng, of posArray c hr hp maxFade h,
      unfolded Let_def Cm gO, folded fade_def]
  have C': "fst (occlusionStep posArray c hr hp maxFade m (C, Oc, h)) =
      upd3 C (m * 3) (occlusionColor fade (occ ! m) (cols ! (m * 3)))
        (occlusionColor fade (occ ! m) (cols ! (m * 3 + 1)))
        (occlusionColor fade (occ ! m) (cols ! (m * 3 + 2)))"
    by (subst part) simp
  have O': "fst (snd (occlusionStep posArray c hr hp maxFade m (C, Oc, h))) =
      Oc[m := occlusionFactor fade (occ ! m)]"
    by (subst part) simp
  show ?case
    unfolding step C' O'
    using lenC lenO IHO IHC rng
    by (auto simp: get3_upd3 fade_def less_Suc_eq nth_list_update)
qed

lemma get3_eqI:
  assumes "length xs = n * 3" "length ys = n * 3" "\<And>i. i < n \<Longrightarrow> get3 xs i = get3 ys i"
  shows "xs = ys"
proof (rule nth_equalityI)
  show "length xs = length ys"
    using assms by simp
  fix j
  assume "j < length xs"
  then have j: "j div 3 < n"
    using assms(1) by (simp add: less_mult_imp_div_less)
  define i where "i = j div 3"
  have "j = i * 3 \<or> j = i * 3 + 1 \<or> j = i * 3 + 2"
    unfolding i_def by presburger
  moreover have "xs ! (i * 3) = ys ! (i * 3)" "xs ! (i * 3 + 1) = ys ! (i * 3 + 1)"
    "xs ! (i * 3 + 2) = ys ! (i * 3 + 2)"
    using assms(3) [OF j] by (simp_all add: get3_def i_def)
  ultimately show "xs ! j = ys ! j"
    by auto
qed

lemma fresh_factor:
  "occlusionColor fade 1 col = col * occlusionFactor fade 1"
  by (cases fade) (simp_all add: occlusionColor_def occlusionFactor_def js_or_def)

lemma absent_fade: "occlusionFade posArray c hr False maxFade i = None"
  by (simp add: occlusionFade_def Let_def)

lemma animateOcclusion_fold:
  "animateOcclusion s =
     (let occ1 = (if lastColorVersionApplied s \<noteq> colorVersion s
                  then replicate (length (occlusionFactors s)) 1 else occlusionFactors s);
          st = fold (occlusionStep (positions s) (handCentroid s) (handRadius3D s) (handPresent s)
                       OCCLUSION_MAX_FADE) [0..<length occ1] (colors s, occ1, False)
      in s\<lparr>colors := fst st, occlusionFactors := fst (snd st),
           lastColorVersionApplied := colorVersion s,
           colorNeedsUpdate := (colorNeedsUpdate s \<or> snd (snd st))\<rparr>)"
  by (simp add: animateOcclusion_def applyOcclusionToParticles_def Let_def)

text \<open>Every tick leaves the applied token equal to the colour version, as the
  start-up state has them.\<close>

lemma animateOcclusion_tokens:
  "lastColorVersionApplied (animateOcclusion s) = colorVersion (animateOcclusion s)"
  by (simp add: animateOcclusion_fold Let_def)

lemma animate_tokens:
  "lastColorVersionApplied (animate n interval hsl rnd now s)
     = colorVersion (animate n interval hsl rnd now s)"
  using animateOcclusion_tokens
  by (simp add: animate_def animateMesh_def animateColorDirty_def Let_def)

text \<open>
  Claim C6, amended. Let every tick so far have left the applied token equal to
  the colour version. When an external actor then overwrites the colour array
  with base values and calls \<^const>\<open>markColorsUpdated\<close>, the tokens differ, and the
  next occlusion pass starts from factors that are all 1: the stale factors play
  no role in its result. The factor the pass stores for a particle is the fade
  computed in this pass from the particle's position (when the hand occludes it
  and the fade differs from 1 by more than 0.001), and 1 otherwise. Every stored
  colour entry is its base value times that factor, so it is exactly the base
  value for every particle with factor 1, and the tokens agree again. When the
  pass only resets (the hand is absent), the stored colours are exactly the base
  values and every factor is 1.
\<close>

theorem color_reset_roundtrip:
  assumes "lastColorVersionApplied s = colorVersion s"
    "length base = length (occlusionFactors s) * 3"
  shows
   "let n = length (occlusionFactors s);
        s1 = markColorsUpdated (s\<lparr>colors := base\<rparr>);
        s2 = animateOcclusion s1
    in lastColorVersionApplied s1 \<noteq> colorVersion s1
     \<and> animateOcclusion (s1\<lparr>occlusionFactors := replicate n 1\<rparr>) = s2
     \<and> lastColorVersionApplied s2 = colorVersion s2
     \<and> length (colors s2) = length base \<and> length (occlusionFactors s2) = n
     \<and> (\<forall>i<n. colors s2 ! (i * 3) = base ! (i * 3) * occlusionFactors s2 ! i
             \<and> colors s2 ! (i * 3 + 1) = base ! (i * 3 + 1) * occlusionFactors s2 ! i
             \<and> colors s2 ! (i * 3 + 2) = base ! (i * 3 + 2) * occlusionFactors s2 ! i
             \<and> occlusionFactors s2 ! i =
                 (case occlusionFade (positions s) (handCentroid s) (handRadius3D s)
                         (handPresent s) OCCLUSION_MAX_FADE i of
                    None \<Rightarrow> 1
                  | Some f \<Rightarrow> if \<bar>f - 1\<bar> > 1 / 1000 then f else 1))
     \<and> (\<not> handPresent s \<longrightarrow> colors s2 = base \<and> occlusionFactors s2 = replicate n 1)"
proof -
  define n where "n = length (occlusionFactors s)"
  define s1 where "s1 = markColorsUpdated (s\<lparr>colors := base\<rparr>)"
  define s2 where "s2 = animateOcclusion s1"
  define st where "st = fold (occlusionStep (positions s) (handCentroid s) (handRadius3D s)
      (handPresent s) OCCLUSION_MAX_FADE) [0..<n] (base, replicate n 1, False)"
  define fade where "fade = occlusionFade (positions s) (handCentroid s) (handRadius3D s)
      (handPresent s) OCCLUSION_MAX_FADE"
  have tok: "lastColorVersionApplied s1 \<noteq> colorVersion s1"
    using assms(1) by (simp add: s1_def markColorsUpdated_def)
  have s2: "s2 = s1\<lparr>colors := fst st, occlusionFactors := fst (snd st),
           lastColorVersionApplied := colorVersion s1,
           colorNeedsUpdate := (colorNeedsUpdate s1 \<or> snd (snd st))\<rparr>"
    unfolding s2_def animateOcclusion_fold using tok
    by (simp add: Let_def s1_def markColorsUpdated_def st_def n_def)
  have indep: "animateOcclusion (s1\<lparr>occlusionFactors := replicate n 1\<rparr>) = s2"
    unfolding s2 animateOcclusion_fold using tok
    by (simp add: Let_def s1_def markColorsUpdated_def st_def n_def)
  have lens: "length base = n * 3" "length (replicate n (1::real)) = n"
    using assms(2) by (simp_all add: n_def)
  from occlusion_loop [OF lens order_refl, of "positions s" "handCentroid s" "handRadius3D s"
      "handPresent s" OCCLUSION_MAX_FADE False, folded st_def fade_def]
  have lenC: "length (fst st) = n * 3" and lenO: "length (fst (snd st)) = n"
    and O: "\<And>i. i < n \<Longrightarrow> fst (snd st) ! i = occlusionFactor (fade i) 1"
    and C: "\<And>i. i < n \<Longrightarrow> get3 (fst st) i =
        (base ! (i * 3) * occlusionFactor (fade i) 1,
         base ! (i * 3 + 1) * occlusionFactor (fade i) 1,
         base ! (i * 3 + 2) * occlusionFactor (fade i) 1)"
    by (simp_all add: fresh_factor)
  have fresh: "occlusionFactor (fade i) 1 =
      (case fade i of None \<Rightarrow> 1 | Some f \<Rightarrow> if \<bar>f - 1\<bar> > 1 / 1000 then f else 1)" for i
    by (simp add: occlusionFactor_def js_or_def split: option.split)
  have prod: "colors s2 ! (i * 3) = base ! (i * 3) * occlusionFactors s2 ! i
             \<and> colors s2 ! (i * 3 + 1) = base ! (i * 3 + 1) * occlusionFactors s2 ! i
             \<and> colors s2 ! (i * 3 + 2) = base ! (i * 3 + 2) * occlusionFactors s2 ! i
             \<and> occlusionFactors s2 ! i =
                 (case fade i of None \<Rightarrow> 1 | Some f \<Rightarrow> if \<bar>f - 1\<bar> > 1 / 1000 then f else 1)"
    if "i < n" for i
    using C [OF that] O [OF that] fresh [of i] by (simp add: s2 get3_def)
  have absent: "colors s2 = base \<and> occlusionFactors s2 = replicate n 1" if "\<not> handPresent s"
  proof -
    have f: "fade i = None" for i
      using that by (simp add: fade_def absent_fade)
    have one: "occlusionFactor None 1 = 1"
      by (simp add: occlusionFactor_def js_or_def)
    have "fst st = base"
      using lenC lens(1) C by (intro get3_eqI [of _ n]) (simp_all add: f one get3_def)
    moreover have "fst (snd st) = replicate n 1"
      using lenO O by (intro nth_equalityI) (simp_all add: f one)
    ultimately show ?thesis
      by (simp add: s2)
  qed
  have rest: "lastColorVersionApplied s2 = colorVersion s2" "length (colors s2) = length base"
    "length (occlusionFactors s2) = n"
    using lenC lenO lens by (simp_all add: s2)
  show ?thesis
    unfolding Let_def n_def [symmetric] s1_def [symmetric] s2_def [symmetric]
      fade_def [symmetric]
    using tok indep rest prod absent by blast
qed

theorem color_reset_roundtrip_witness:
  "lastColorVersionApplied staleFade = colorVersion staleFade
   \<and> length [1, 1 / 2, 1 / 4 :: real] = length (occlusionFactors staleFade) * 3
   \<and> occlusionFactors staleFade = [1 / 2] \<and> \<not> handPresent staleFade
   \<and> colors (animateOcclusion (markColorsUpdated (staleFade\<lparr>colors := [1, 1 / 2, 1 / 4]\<rparr>)))
       = [1, 1 / 2, 1 / 4]
   \<and> occlusionFactors
        (animateOcclusion (markColorsUpdated (staleFade\<lparr>colors := [1, 1 / 2, 1 / 4]\<rparr>))) = [1]"
proof -
  have h: "lastColorVersionApplied staleFade = colorVersion staleFade"
    "length [1, 1 / 2, 1 / 4 :: real] = length (occlusionFactors staleFade) * 3"
    by (simp_all add: staleFade_def initialState_def)
  have a: "occlusionFactors staleFade = [1 / 2]" "\<not> handPresent staleFade"
    by (simp_all add: staleFade_def initialState_def)
  from color_reset_roundtrip [OF h] a show ?thesis
    using h by (simp add: Let_def)
qed

text \<open>
  Claim C6 as stated has every stored colour back at exactly its base value after
  the pass. With the hand present and the particle straight behind it, the pass
  that follows the bump stores the base values times the fresh fade 0.2500006.
\<close>

theorem color_reset_fades_counterexample:
  "lastColorVersionApplied occludedStale = colorVersion occludedStale
   \<and> occlusionFactors occludedStale = [1 / 2]
   \<and> colors (animateOcclusion (markColorsUpdated (occludedStale\<lparr>colors := [1, 1 / 2, 1 / 4]\<rparr>)))
       = [1250003 / 5000000, 1250003 / 10000000, 1250003 / 20000000]
   \<and> [1250003 / 5000000, 1250003 / 10000000, 1250003 / 20000000] \<noteq> [1, 1 / 2, 1 / 4 :: real]"
proof -
  have step: "occlusionStep [0, 0, 3] (Vector3 0 0 0) 1 True (3 / 4) 0 ([1, 1 / 2, 1 / 4], [1], False)
      = ([1250003 / 5000000, 1250003 / 10000000, 1250003 / 20000000], [1250003 / 5000000], True)"
    by (simp add: occlusionStep_def Let_def js_or_def EPS_def)
  show ?thesis
    by (simp add: animateOcclusion_fold markColorsUpdated_def occludedStale_def staleFade_def
        initialState_def
        defaultVector_def OCCLUSION_MAX_FADE_def Let_def step)
qed

text \<open>
  Claim C5 says that every stored factor stays within \<open>[1 - maxFade, 1]\<close>. Two
  passes with the hand of radius 1 at the origin and one particle refute the
  upper bound: the first pass finds the particle at \<open>(0, 0, 3)\<close>, straight behind
  the hand, and stores the factor 0.2500006; the second finds it at
  \<open>(1.25, 0, 1)\<close>, on the rim of the lateral radius 1.25, where
  \<open>dist = 1.25 + EPS\<close> makes \<open>radialFactor\<close> negative, and stores a factor
  above 1.
\<close>

theorem occlusion_factor_exceeds_one:
  "applyOcclusionToParticles (Some [0, 0, 3]) (Some [1, 1, 1]) (Some [1]) (Vector3 0 0 0) 1
     (occlusionOpts True OCCLUSION_MAX_FADE 0 0)
     = Some ([1250003 / 5000000, 1250003 / 5000000, 1250003 / 5000000],
             [1250003 / 5000000], 0, True)
   \<and> applyOcclusionToParticles (Some [5 / 4, 0, 1])
       (Some [1250003 / 5000000, 1250003 / 5000000, 1250003 / 5000000])
       (Some [1250003 / 5000000]) (Vector3 0 0 0) 1 (occlusionOpts True OCCLUSION_MAX_FADE 0 0)
     = Some ([7500008 / 7500005, 7500008 / 7500005, 7500008 / 7500005],
             [7500008 / 7500005], 0, True)
   \<and> (1::real) < 7500008 / 7500005"
proof -
  have sq: "sqrt (25 / 16) = (5 / 4 :: real)"
    by (rule real_sqrt_unique) (simp_all add: power2_eq_square)
  have first: "occlusionStep [0, 0, 3] (Vector3 0 0 0) 1 True (3 / 4) 0 ([1, 1, 1], [1], False)
      = ([1250003 / 5000000, 1250003 / 5000000, 1250003 / 5000000], [1250003 / 5000000], True)"
    by (simp add: occlusionStep_def Let_def js_or_def EPS_def)
  have second: "occlusionStep [5 / 4, 0, 1] (Vector3 0 0 0) 1 True (3 / 4) 0
        ([1250003 / 5000000, 1250003 / 5000000, 1250003 / 5000000], [1250003 / 5000000], False)
      = ([7500008 / 7500005, 7500008 / 7500005, 7500008 / 7500005], [7500008 / 7500005], True)"
    by (simp add: occlusionStep_def Let_def js_or_def EPS_def sq)
  show ?thesis
    by (simp add: applyOcclusionToParticles_def occlusionOpts_def OCCLUSION_MAX_FADE_def
        Let_def first second)
qed

end
